theory Spec2Isabelle
  imports Complex_Main "HOL-Library.AList" "HOL-Library.Log_Nat"
begin

section \<open>Order-status normalisation\<close>

text \<open>
  \<^verbatim>\<open>TradeResult.status\<close> of \<^verbatim>\<open>baseBroker.ts\<close> is one of four string literals.
\<close>

datatype order_status = pending | filled | cancelled | rejected

text \<open>
  \<^verbatim>\<open>String.prototype.toLowerCase\<close>, on the ASCII letters. The six keywords Delta
  compares with are ASCII and contain neither \<^verbatim>\<open>k\<close> nor a dotless or dotted \<^verbatim>\<open>i\<close> variant that a
  non-ASCII capital could lower-case into, so bytes outside \<^verbatim>\<open>A\<close>..\<^verbatim>\<open>Z\<close> are left as they are.
\<close>

definition toLowerChar :: "char \<Rightarrow> char" where
  "toLowerChar c =
     (case map_of (zip ''ABCDEFGHIJKLMNOPQRSTUVWXYZ'' ''abcdefghijklmnopqrstuvwxyz'') c of
        Some l \<Rightarrow> l
      | None \<Rightarrow> c)"

definition toLowerCase :: "string \<Rightarrow> string" where
  "toLowerCase s = map toLowerChar s"

text \<open>\<^verbatim>\<open>DeltaExchangeBroker.mapOrderStatus\<close>: a switch on \<^verbatim>\<open>state.toLowerCase()\<close>.\<close>

definition delta_mapOrderStatus :: "string \<Rightarrow> order_status" where
  "delta_mapOrderStatus state =
     (let s = toLowerCase state in
      if s = ''open'' \<or> s = ''pending'' then pending
      else if s = ''filled'' \<or> s = ''closed'' then filled
      else if s = ''cancelled'' then cancelled
      else if s = ''rejected'' then rejected
      else pending)"

text \<open>\<^verbatim>\<open>BinanceFuturesBroker.mapOrderStatus\<close>: a switch on the status as given.\<close>

definition binance_mapOrderStatus :: "string \<Rightarrow> order_status" where
  "binance_mapOrderStatus status =
     (if status = ''NEW'' \<or> status = ''PARTIALLY_FILLED'' then pending
      else if status = ''FILLED'' then filled
      else if status = ''CANCELED'' \<or> status = ''EXPIRED'' then cancelled
      else if status = ''REJECTED'' then rejected
      else pending)"

text \<open>\<^verbatim>\<open>BybitBroker.mapOrderStatus\<close>.\<close>

definition bybit_mapOrderStatus :: "string \<Rightarrow> order_status" where
  "bybit_mapOrderStatus status =
     (if status = ''New'' \<or> status = ''PartiallyFilled'' then pending
      else if status = ''Filled'' then filled
      else if status = ''Cancelled'' \<or> status = ''Rejected'' then cancelled
      else if status = ''Deactivated'' then rejected
      else pending)"

text \<open>\<^verbatim>\<open>OKXBroker.mapOrderStatus\<close>.\<close>

definition okx_mapOrderStatus :: "string \<Rightarrow> order_status" where
  "okx_mapOrderStatus state =
     (if state = ''live'' \<or> state = ''partially_filled'' then pending
      else if state = ''filled'' then filled
      else if state = ''canceled'' then cancelled
      else if state = ''rejected'' then rejected
      else pending)"

text \<open>
  The table of section 4.2 of the specification, written as association lists from the
  documented native status strings to the normalised status.
\<close>

definition delta_table :: "(string \<times> order_status) list" where
  "delta_table = [(''open'', pending), (''pending'', pending), (''filled'', filled),
     (''closed'', filled), (''cancelled'', cancelled), (''rejected'', rejected)]"

definition binance_table :: "(string \<times> order_status) list" where
  "binance_table = [(''NEW'', pending), (''PARTIALLY_FILLED'', pending), (''FILLED'', filled),
     (''CANCELED'', cancelled), (''EXPIRED'', cancelled), (''REJECTED'', rejected)]"

definition bybit_table :: "(string \<times> order_status) list" where
  "bybit_table = [(''New'', pending), (''PartiallyFilled'', pending), (''Filled'', filled),
     (''Cancelled'', cancelled), (''Rejected'', cancelled), (''Deactivated'', rejected)]"

definition okx_table :: "(string \<times> order_status) list" where
  "okx_table = [(''live'', pending), (''partially_filled'', pending), (''filled'', filled),
     (''canceled'', cancelled), (''rejected'', rejected)]"

text \<open>The normalisation the table prescribes: the listed status, and pending for the rest.\<close>

definition table_status :: "(string \<times> order_status) list \<Rightarrow> string \<Rightarrow> order_status" where
  "table_status t s = (case map_of t s of Some st \<Rightarrow> st | None \<Rightarrow> pending)"

section \<open>The rate limiter of \<^verbatim>\<open>BaseBroker\<close>\<close>

subsection \<open>The JavaScript primitives \<^verbatim>\<open>checkRateLimit\<close> uses\<close>

text \<open>
  The numbers \<^verbatim>\<open>Math.floor\<close> and \<^verbatim>\<open>parseInt\<close> return here: an integer, an infinity or
  \<^verbatim>\<open>NaN\<close>. \<^verbatim>\<open>Date.now()\<close> and the window length are whole milliseconds, so no fraction
  reaches \<^verbatim>\<open>Math.floor\<close> but through the division.
\<close>

datatype jsint = Num int | PosInf | NegInf | NaN

text \<open>\<^verbatim>\<open>Math.floor(a / b)\<close> on integers; a division by zero gives an infinity or \<^verbatim>\<open>NaN\<close>.\<close>

definition js_floor_div :: "int \<Rightarrow> int \<Rightarrow> jsint" where
  "js_floor_div a b =
     (if b = 0 then (if a = 0 then NaN else if 0 < a then PosInf else NegInf)
      else Num (a div b))"

text \<open>The comparison \<^verbatim>\<open><\<close>: false as soon as one side is \<^verbatim>\<open>NaN\<close>.\<close>

fun js_lt :: "jsint \<Rightarrow> jsint \<Rightarrow> bool" where
  "js_lt NaN _ = False"
| "js_lt _ NaN = False"
| "js_lt (Num a) (Num b) = (a < b)"
| "js_lt _ NegInf = False"
| "js_lt NegInf _ = True"
| "js_lt PosInf _ = False"
| "js_lt (Num a) PosInf = True"

text \<open>The decimal digits of a natural number, most significant first.\<close>

definition digit_char :: "nat \<Rightarrow> char" where
  "digit_char d = ''0123456789'' ! d"

fun dec :: "nat \<Rightarrow> string" where
  "dec n = (if n < 10 then [digit_char n] else dec (n div 10) @ [digit_char (n mod 10)])"

declare dec.simps [simp del]

text \<open>
  The string a template literal makes of such a number. Integers print in plain decimal
  (below \<^verbatim>\<open>1e21\<close>, which a quotient of \<^verbatim>\<open>Date.now()\<close> stays under).
\<close>

fun toString :: "jsint \<Rightarrow> string" where
  "toString (Num i) = (if i < 0 then CHR ''-'' # dec (nat (- i)) else dec (nat i))"
| "toString PosInf = ''Infinity''"
| "toString NegInf = ''-Infinity''"
| "toString NaN = ''NaN''"

text \<open>\<^verbatim>\<open>k.split('_')\<close>: the pieces between underscores; never the empty list.\<close>

fun split_us :: "string \<Rightarrow> string list" where
  "split_us [] = [[]]"
| "split_us (c # cs) =
     (if c = CHR ''_'' then [] # split_us cs
      else (case split_us cs of [] \<Rightarrow> [[c]] | x # xs \<Rightarrow> (c # x) # xs))"

text \<open>
  \<^verbatim>\<open>parseInt(s)\<close> with no radix: leading white space is skipped, a sign is read, a
  \<^verbatim>\<open>0x\<close> prefix switches to base 16, and the longest run of digits is the value;
  no digit at all gives \<^verbatim>\<open>NaN\<close>.

  The white space \<^verbatim>\<open>parseInt\<close> skips is the white space and the line terminators of the
  language: the six ASCII characters of \<^verbatim>\<open>is_space\<close> and, in the UTF-8 bytes of a string,
  U+00A0 (\<^verbatim>\<open>white_space2\<close>) and U+1680, U+2000 to U+200A, U+2028, U+2029, U+202F, U+205F,
  U+3000 and U+FEFF (\<^verbatim>\<open>white_space3\<close>).
\<close>

definition is_space :: "char \<Rightarrow> bool" where
  "is_space c = (c \<in> set [CHR 0x09, CHR 0x0A, CHR 0x0B, CHR 0x0C, CHR 0x0D, CHR 0x20])"

definition white_space2 :: "char \<Rightarrow> char \<Rightarrow> bool" where
  "white_space2 a b = (a = CHR 0xC2 \<and> b = CHR 0xA0)"

definition white_space3 :: "char \<Rightarrow> char \<Rightarrow> char \<Rightarrow> bool" where
  "white_space3 a b c =
     ((a = CHR 0xE1 \<and> b = CHR 0x9A \<and> c = CHR 0x80)
      \<or> (a = CHR 0xE2 \<and> b = CHR 0x80
           \<and> c \<in> set [CHR 0x80, CHR 0x81, CHR 0x82, CHR 0x83, CHR 0x84, CHR 0x85, CHR 0x86,
                        CHR 0x87, CHR 0x88, CHR 0x89, CHR 0x8A, CHR 0xA8, CHR 0xA9, CHR 0xAF])
      \<or> (a = CHR 0xE2 \<and> b = CHR 0x81 \<and> c = CHR 0x9F)
      \<or> (a = CHR 0xE3 \<and> b = CHR 0x80 \<and> c = CHR 0x80)
      \<or> (a = CHR 0xEF \<and> b = CHR 0xBB \<and> c = CHR 0xBF))"

fun trim_start :: "string \<Rightarrow> string" where
  "trim_start (a # b # c # r) =
     (if is_space a then trim_start (b # c # r)
      else if white_space2 a b then trim_start (c # r)
      else if white_space3 a b c then trim_start r
      else a # b # c # r)"
| "trim_start [a, b] =
     (if is_space a then trim_start [b] else if white_space2 a b then [] else [a, b])"
| "trim_start [a] = (if is_space a then [] else [a])"
| "trim_start [] = []"

definition digit_table :: "(char \<times> nat) list" where
  "digit_table =
     [(CHR ''0'', 0), (CHR ''1'', 1), (CHR ''2'', 2), (CHR ''3'', 3), (CHR ''4'', 4),
      (CHR ''5'', 5), (CHR ''6'', 6), (CHR ''7'', 7), (CHR ''8'', 8), (CHR ''9'', 9),
      (CHR ''a'', 10), (CHR ''b'', 11), (CHR ''c'', 12), (CHR ''d'', 13), (CHR ''e'', 14),
      (CHR ''f'', 15), (CHR ''A'', 10), (CHR ''B'', 11), (CHR ''C'', 12), (CHR ''D'', 13),
      (CHR ''E'', 14), (CHR ''F'', 15)]"

definition digit_of :: "nat \<Rightarrow> char \<Rightarrow> nat option" where
  "digit_of radix c =
     (case map_of digit_table c of
        Some d \<Rightarrow> if d < radix then Some d else None
      | None \<Rightarrow> None)"

definition digits_value :: "nat \<Rightarrow> string \<Rightarrow> nat" where
  "digits_value radix ds =
     foldl (\<lambda>acc c. acc * radix + (case digit_of radix c of Some d \<Rightarrow> d | None \<Rightarrow> 0)) 0 ds"

definition parseInt :: "string \<Rightarrow> jsint" where
  "parseInt s =
     (let s1 = trim_start s;
          (neg, s2) = (case s1 of
                         c # r \<Rightarrow> if c = CHR ''-'' then (True, r)
                                  else if c = CHR ''+'' then (False, r) else (False, s1)
                       | [] \<Rightarrow> (False, s1));
          (radix, s3) = (case s2 of
                           c # d # r \<Rightarrow> if c = CHR ''0'' \<and> (d = CHR ''x'' \<or> d = CHR ''X'')
                                          then (16, r) else (10, s2)
                         | _ \<Rightarrow> (10, s2));
          ds = takeWhile (\<lambda>c. digit_of radix c \<noteq> None) s3
      in if ds = [] then NaN
         else Num ((if neg then - 1 else 1) * int (digits_value radix ds)))"

subsection \<open>\<^verbatim>\<open>checkRateLimit\<close>\<close>

text \<open>
  \<^verbatim>\<open>rateLimiter: Map<string, number>\<close>, in insertion order. \<^verbatim>\<open>get(key) || 0\<close> reads a
  missing key, and a stored zero, as zero.
\<close>

type_synonym rate_map = "(string \<times> nat) list"

definition rate_get :: "rate_map \<Rightarrow> string \<Rightarrow> nat" where
  "rate_get rl key = (case map_of rl key of Some v \<Rightarrow> v | None \<Rightarrow> 0)"

text \<open>The key of the current window: \<^verbatim>\<open>`${endpoint}_${Math.floor(now / windowMs)}`\<close>.\<close>

definition window_key :: "string \<Rightarrow> nat \<Rightarrow> nat \<Rightarrow> string" where
  "window_key endpoint windowMs now =
     endpoint @ ''_'' @ toString (js_floor_div (int now) (int windowMs))"

text \<open>
  The test of the clean-up loop on one key \<^verbatim>\<open>k\<close>:
  \<^verbatim>\<open>k.split('_')[1] && parseInt(k.split('_')[1]) < Math.floor((now - windowMs) / windowMs)\<close>.
  The second piece is \<^verbatim>\<open>undefined\<close> when the key has no underscore, and falsy when empty.
\<close>

definition is_old :: "nat \<Rightarrow> nat \<Rightarrow> string \<Rightarrow> bool" where
  "is_old windowMs now k =
     (case split_us k of
        _ # p # _ \<Rightarrow>
          p \<noteq> [] \<and> js_lt (parseInt p) (js_floor_div (int now - int windowMs) (int windowMs))
      | _ \<Rightarrow> False)"

text \<open>
  \<^verbatim>\<open>checkRateLimit(endpoint, limit, windowMs)\<close>, with \<^verbatim>\<open>Date.now()\<close> and the map passed in
  and the map returned. A denied call returns before the clean-up loop.
\<close>

definition checkRateLimit :: "string \<Rightarrow> nat \<Rightarrow> nat \<Rightarrow> nat \<Rightarrow> rate_map \<Rightarrow> bool \<times> rate_map" where
  "checkRateLimit endpoint limit windowMs now rl =
     (let key = window_key endpoint windowMs now;
          current = rate_get rl key
      in if current \<ge> limit then (False, rl)
         else (True, filter (\<lambda>(k, v). \<not> is_old windowMs now k)
                       (AList.update key (current + 1) rl)))"

text \<open>
  A run of calls with the same arguments at the given clock readings: the answers in
  order, and the map left behind.
\<close>

fun check_calls :: "string \<Rightarrow> nat \<Rightarrow> nat \<Rightarrow> nat list \<Rightarrow> rate_map \<Rightarrow> bool list \<times> rate_map" where
  "check_calls endpoint limit windowMs [] rl = ([], rl)"
| "check_calls endpoint limit windowMs (now # ts) rl =
     (let (r, rl1) = checkRateLimit endpoint limit windowMs now rl;
          (rs, rl2) = check_calls endpoint limit windowMs ts rl1
      in (r # rs, rl2))"

text \<open>
  An endpoint name is plain when its second underscore-separated piece, if it has one, is
  empty or not a number for \<^verbatim>\<open>parseInt\<close>. The names the connectors pass
  (\<^verbatim>\<open>validate\<close>, \<^verbatim>\<open>balance\<close>, \<^verbatim>\<open>positions\<close>, \<^verbatim>\<open>order\<close>, \<^verbatim>\<open>cancel\<close>, \<^verbatim>\<open>order_status\<close>)
  are all plain.
\<close>

definition plain_endpoint :: "string \<Rightarrow> bool" where
  "plain_endpoint e =
     (case split_us e of _ # p # _ \<Rightarrow> p = [] \<or> parseInt p = NaN | _ \<Rightarrow> True)"

definition is_digit :: "char \<Rightarrow> bool" where
  "is_digit c = (c \<in> set ''0123456789'')"

section \<open>Errors and the REST boundary\<close>

text \<open>
  What \<^verbatim>\<open>handleError\<close> reads of a thrown value: \<^verbatim>\<open>error.response?.status\<close>, \<^verbatim>\<open>error.code\<close> and
  \<^verbatim>\<open>error.message\<close>. An \<^verbatim>\<open>Error\<close> made by \<^verbatim>\<open>new Error(msg)\<close> has the message only.
\<close>

record js_error =
  response_status :: "nat option"
  code :: "string option"
  message :: string

definition new_Error :: "string \<Rightarrow> js_error" where
  "new_Error msg = \<lparr>response_status = None, code = None, message = msg\<rparr>"

text \<open>
  \<^verbatim>\<open>BaseBroker.handleError\<close>. The log line has no effect on the result. An empty message is
  falsy, so \<^verbatim>\<open>error.message || 'Unknown broker error'\<close> replaces it.
\<close>

definition handleError :: "js_error \<Rightarrow> js_error" where
  "handleError error =
     (if response_status error = Some 401 then new_Error ''Invalid API credentials''
      else if response_status error = Some 429 then new_Error ''Rate limit exceeded''
      else if (case response_status error of Some st \<Rightarrow> st \<ge> 500 | None \<Rightarrow> False)
        then new_Error ''Broker service unavailable''
      else if code error = Some ''ECONNREFUSED'' then new_Error ''Connection refused by broker''
      else if code error = Some ''ETIMEDOUT'' then new_Error ''Request timeout''
      else new_Error (if message error = [] then ''Unknown broker error'' else message error))"

text \<open>
  The network is an input of the model: a REST call either resolves with the response the
  exchange sent or rejects with the error axios raised. Each connector installs a response
  interceptor that rethrows \<^verbatim>\<open>handleError(error, ...)\<close>, so what the caller of
  \<^verbatim>\<open>apiClient.get\<close> catches is already classified.
\<close>

datatype 'r rest_outcome = Resolved 'r | Rejected js_error

definition apiClient :: "'r rest_outcome \<Rightarrow> js_error + 'r" where
  "apiClient out = (case out of Resolved r \<Rightarrow> Inr r | Rejected e \<Rightarrow> Inl (handleError e))"

text \<open>The handshake of the market-data socket: the \<^verbatim>\<open>open\<close> event or the \<^verbatim>\<open>error\<close> event.\<close>

datatype ws_outcome = WsOpen | WsError js_error

section \<open>The connector state\<close>

record BrokerCredentials =
  apiKey :: string
  apiSecret :: string
  passphrase :: "string option"
  sandbox :: "bool option"

datatype readyState = CONNECTING | OPEN | CLOSING | CLOSED

text \<open>
  The fields of \<^verbatim>\<open>BaseBroker\<close> and the \<^verbatim>\<open>wsClient\<close> every connector class adds
  (\<^verbatim>\<open>None\<close> is \<^verbatim>\<open>null\<close>).
\<close>

record broker =
  credentials :: BrokerCredentials
  isConnected :: bool
  rateLimiter :: rate_map
  wsClient :: "readyState option"

text \<open>The state a constructor leaves: not connected, an empty limiter, no socket.\<close>

definition new_broker :: "BrokerCredentials \<Rightarrow> broker" where
  "new_broker creds =
     \<lparr>credentials = creds, isConnected = False, rateLimiter = [], wsClient = None\<rparr>"

text \<open>
  The guard every operation starts with:
  \<^verbatim>\<open>if (!this.checkRateLimit(endpoint, limit, 60000)) throw new Error('Rate limit exceeded')\<close>.
  It returns the connector with the limiter updated.
\<close>

definition rate_guard :: "string \<Rightarrow> nat \<Rightarrow> nat \<Rightarrow> broker \<Rightarrow> (js_error + unit) \<times> broker" where
  "rate_guard endpoint limit now br =
     (let (ok, rl) = checkRateLimit endpoint limit 60000 now (rateLimiter br)
      in (if ok then Inr () else Inl (new_Error ''Rate limit exceeded''),
          br\<lparr>rateLimiter := rl\<rparr>))"

section \<open>\<^verbatim>\<open>validateCredentials\<close> and \<^verbatim>\<open>connect\<close>\<close>

text \<open>
  The parts of the four validation responses the code reads. For Delta and Binance-Futures
  the HTTP status and a flag of the body, for Bybit \<^verbatim>\<open>retCode\<close>, for OKX \<^verbatim>\<open>code\<close>.
\<close>

record delta_profile =
  dp_status :: nat
  dp_success :: bool

record binance_account =
  ba_status :: nat
  ba_canTrade :: bool

record bybit_info =
  bi_retCode :: int

record okx_config =
  oc_code :: string

text \<open>
  The \<^verbatim>\<open>try\<close> block of \<^verbatim>\<open>DeltaExchangeBroker.validateCredentials\<close>, and the method with its
  \<^verbatim>\<open>catch\<close>, which logs and returns \<^verbatim>\<open>false\<close> whatever was thrown. \<^verbatim>\<open>Inl\<close> is a throw.
\<close>

definition delta_validate_try ::
  "nat \<Rightarrow> delta_profile rest_outcome \<Rightarrow> broker \<Rightarrow> (js_error + bool) \<times> broker" where
  "delta_validate_try now out br =
     (case rate_guard ''validate'' 10 now br of
        (Inl e, br1) \<Rightarrow> (Inl e, br1)
      | (Inr _, br1) \<Rightarrow>
          (case apiClient out of
             Inl e \<Rightarrow> (Inl e, br1)
           | Inr response \<Rightarrow> (Inr (dp_status response = 200 \<and> dp_success response), br1)))"

definition delta_validateCredentials ::
  "nat \<Rightarrow> delta_profile rest_outcome \<Rightarrow> broker \<Rightarrow> (js_error + bool) \<times> broker" where
  "delta_validateCredentials now out br =
     (case delta_validate_try now out br of
        (Inl error, br1) \<Rightarrow> (Inr False, br1)
      | (Inr b, br1) \<Rightarrow> (Inr b, br1))"

text \<open>\<^verbatim>\<open>BinanceFuturesBroker.validateCredentials\<close>.\<close>

definition binance_validate_try ::
  "nat \<Rightarrow> binance_account rest_outcome \<Rightarrow> broker \<Rightarrow> (js_error + bool) \<times> broker" where
  "binance_validate_try now out br =
     (case rate_guard ''validate'' 10 now br of
        (Inl e, br1) \<Rightarrow> (Inl e, br1)
      | (Inr _, br1) \<Rightarrow>
          (case apiClient out of
             Inl e \<Rightarrow> (Inl e, br1)
           | Inr response \<Rightarrow> (Inr (ba_status response = 200 \<and> ba_canTrade response), br1)))"

definition binance_validateCredentials ::
  "nat \<Rightarrow> binance_account rest_outcome \<Rightarrow> broker \<Rightarrow> (js_error + bool) \<times> broker" where
  "binance_validateCredentials now out br =
     (case binance_validate_try now out br of
        (Inl error, br1) \<Rightarrow> (Inr False, br1)
      | (Inr b, br1) \<Rightarrow> (Inr b, br1))"

text \<open>\<^verbatim>\<open>BybitBroker.validateCredentials\<close>.\<close>

definition bybit_validate_try ::
  "nat \<Rightarrow> bybit_info rest_outcome \<Rightarrow> broker \<Rightarrow> (js_error + bool) \<times> broker" where
  "bybit_validate_try now out br =
     (case rate_guard ''validate'' 10 now br of
        (Inl e, br1) \<Rightarrow> (Inl e, br1)
      | (Inr _, br1) \<Rightarrow>
          (case apiClient out of
             Inl e \<Rightarrow> (Inl e, br1)
           | Inr response \<Rightarrow> (Inr (bi_retCode response = 0), br1)))"

definition bybit_validateCredentials ::
  "nat \<Rightarrow> bybit_info rest_outcome \<Rightarrow> broker \<Rightarrow> (js_error + bool) \<times> broker" where
  "bybit_validateCredentials now out br =
     (case bybit_validate_try now out br of
        (Inl error, br1) \<Rightarrow> (Inr False, br1)
      | (Inr b, br1) \<Rightarrow> (Inr b, br1))"

text \<open>\<^verbatim>\<open>OKXBroker.validateCredentials\<close>.\<close>

definition okx_validate_try ::
  "nat \<Rightarrow> okx_config rest_outcome \<Rightarrow> broker \<Rightarrow> (js_error + bool) \<times> broker" where
  "okx_validate_try now out br =
     (case rate_guard ''validate'' 10 now br of
        (Inl e, br1) \<Rightarrow> (Inl e, br1)
      | (Inr _, br1) \<Rightarrow>
          (case apiClient out of
             Inl e \<Rightarrow> (Inl e, br1)
           | Inr response \<Rightarrow> (Inr (oc_code response = ''0''), br1)))"

definition okx_validateCredentials ::
  "nat \<Rightarrow> okx_config rest_outcome \<Rightarrow> broker \<Rightarrow> (js_error + bool) \<times> broker" where
  "okx_validateCredentials now out br =
     (case okx_validate_try now out br of
        (Inl error, br1) \<Rightarrow> (Inr False, br1)
      | (Inr b, br1) \<Rightarrow> (Inr b, br1))"

text \<open>
  \<^verbatim>\<open>connectWebSocket\<close>, the same in the four classes: a new socket is stored, and the promise
  resolves on \<^verbatim>\<open>open\<close> and rejects with the error on \<^verbatim>\<open>error\<close>. The socket emits \<^verbatim>\<open>close\<close>
  right after \<^verbatim>\<open>error\<close>, and the \<^verbatim>\<open>close\<close> handler clears the reference before the
  awaiting caller resumes.
\<close>

definition connectWebSocket :: "ws_outcome \<Rightarrow> broker \<Rightarrow> (js_error + unit) \<times> broker" where
  "connectWebSocket ws br =
     (case ws of
        WsOpen \<Rightarrow> (Inr (), br\<lparr>wsClient := Some OPEN\<rparr>)
      | WsError e \<Rightarrow> (Inl e, br\<lparr>wsClient := None\<rparr>))"

text \<open>
  \<^verbatim>\<open>connect\<close>, the same in the four classes but for the validation it calls:
  \<^verbatim>\<open>try { await this.validateCredentials(); await this.connectWebSocket();
  this.isConnected = true } catch (error) { throw this.handleError(error, ...) }\<close>.
  The boolean \<^verbatim>\<open>validateCredentials\<close> returns is not read.
\<close>

definition connect_with ::
  "(broker \<Rightarrow> (js_error + bool) \<times> broker) \<Rightarrow> ws_outcome \<Rightarrow> broker \<Rightarrow> (js_error + unit) \<times> broker" where
  "connect_with validate ws br =
     (case validate br of
        (Inl error, br1) \<Rightarrow> (Inl (handleError error), br1)
      | (Inr _, br1) \<Rightarrow>
          (case connectWebSocket ws br1 of
             (Inl error, br2) \<Rightarrow> (Inl (handleError error), br2)
           | (Inr _, br2) \<Rightarrow> (Inr (), br2\<lparr>isConnected := True\<rparr>)))"

definition delta_connect ::
  "nat \<Rightarrow> delta_profile rest_outcome \<Rightarrow> ws_outcome \<Rightarrow> broker \<Rightarrow> (js_error + unit) \<times> broker" where
  "delta_connect now out ws br = connect_with (delta_validateCredentials now out) ws br"

definition binance_connect ::
  "nat \<Rightarrow> binance_account rest_outcome \<Rightarrow> ws_outcome \<Rightarrow> broker \<Rightarrow> (js_error + unit) \<times> broker" where
  "binance_connect now out ws br = connect_with (binance_validateCredentials now out) ws br"

definition bybit_connect ::
  "nat \<Rightarrow> bybit_info rest_outcome \<Rightarrow> ws_outcome \<Rightarrow> broker \<Rightarrow> (js_error + unit) \<times> broker" where
  "bybit_connect now out ws br = connect_with (bybit_validateCredentials now out) ws br"

definition okx_connect ::
  "nat \<Rightarrow> okx_config rest_outcome \<Rightarrow> ws_outcome \<Rightarrow> broker \<Rightarrow> (js_error + unit) \<times> broker" where
  "okx_connect now out ws br = connect_with (okx_validateCredentials now out) ws br"

section \<open>Numbers of the normalised entities\<close>

text \<open>
  A JavaScript number: a finite binary64 value, an infinity or \<^verbatim>\<open>NaN\<close>. The sign of a zero
  is not recorded. Every numeric field of an exchange response below holds the number
  \<^verbatim>\<open>parseFloat\<close> makes of the string the exchange sent, a binary64 value.
\<close>

datatype number = Finite real | PlusInfinity | MinusInfinity | NotANumber

fun is_finite :: "number \<Rightarrow> bool" where
  "is_finite (Finite _) = True"
| "is_finite _ = False"

text \<open>
  The rounding of binary64 arithmetic, to the nearest value with ties to the even
  significand. \<^verbatim>\<open>pow2 e\<close> is the power of two of an integer exponent, \<^verbatim>\<open>binade x\<close> the exponent
  \<^verbatim>\<open>e\<close> with \<^verbatim>\<open>2^e <= x < 2^(e+1)\<close> of a positive \<^verbatim>\<open>x\<close>, and \<^verbatim>\<open>quantum x\<close> the spacing of the
  binary64 values around \<^verbatim>\<open>x\<close>: 52 binary places below the exponent, which does not go below
  the exponent \<^verbatim>\<open>-1022\<close> of the subnormal values.
\<close>

definition pow2 :: "int \<Rightarrow> real" where
  "pow2 e = (if 0 \<le> e then 2 ^ nat e else 1 / 2 ^ nat (- e))"

definition binade :: "real \<Rightarrow> int" where
  "binade x =
     (if 1 \<le> x then bitlen \<lfloor>x\<rfloor> - 1
      else (let k = bitlen \<lfloor>1 / x\<rfloor> - 1
            in if x * 2 ^ nat k = 1 then - k else - k - 1))"

definition round_half_even :: "real \<Rightarrow> int" where
  "round_half_even y =
     (let n = \<lfloor>y\<rfloor>; d = y - of_int n
      in if d < 1 / 2 then n else if 1 / 2 < d then n + 1 else if even n then n else n + 1)"

definition quantum :: "real \<Rightarrow> real" where
  "quantum x = pow2 (max (binade \<bar>x\<bar>) (- 1022) - 52)"

definition round64 :: "real \<Rightarrow> real" where
  "round64 x = (if x = 0 then 0 else quantum x * of_int (round_half_even (x / quantum x)))"

text \<open>
  The result of an arithmetic operation whose exact value is \<open>x\<close>: the rounded value, or an
  infinity when the rounded value is beyond the binary64 range.
\<close>

definition js_round :: "real \<Rightarrow> number" where
  "js_round x =
     (let r = round64 x
      in if 2 ^ 1024 \<le> \<bar>r\<bar> then (if 0 < x then PlusInfinity else MinusInfinity)
         else Finite r)"

text \<open>\<^verbatim>\<open>x > 0\<close> and \<^verbatim>\<open>x !== 0\<close>: \<^verbatim>\<open>NaN\<close> is not above zero, and is different from zero.\<close>

fun js_positive :: "number \<Rightarrow> bool" where
  "js_positive (Finite x) = (0 < x)"
| "js_positive PlusInfinity = True"
| "js_positive _ = False"

fun js_nonzero :: "number \<Rightarrow> bool" where
  "js_nonzero (Finite x) = (x \<noteq> 0)"
| "js_nonzero _ = True"

fun js_neg :: "number \<Rightarrow> number" where
  "js_neg (Finite x) = Finite (- x)"
| "js_neg PlusInfinity = MinusInfinity"
| "js_neg MinusInfinity = PlusInfinity"
| "js_neg NotANumber = NotANumber"

text \<open>
  \<^verbatim>\<open>a + b\<close> and \<^verbatim>\<open>a - b\<close>: the exact sum of two finite values is rounded, and opposite
  infinities cancel to \<^verbatim>\<open>NaN\<close>.
\<close>

fun js_add :: "number \<Rightarrow> number \<Rightarrow> number" where
  "js_add NotANumber _ = NotANumber"
| "js_add _ NotANumber = NotANumber"
| "js_add (Finite a) (Finite b) = js_round (a + b)"
| "js_add PlusInfinity MinusInfinity = NotANumber"
| "js_add MinusInfinity PlusInfinity = NotANumber"
| "js_add PlusInfinity _ = PlusInfinity"
| "js_add MinusInfinity _ = MinusInfinity"
| "js_add _ PlusInfinity = PlusInfinity"
| "js_add _ MinusInfinity = MinusInfinity"

definition js_sub :: "number \<Rightarrow> number \<Rightarrow> number" where
  "js_sub a b = js_add a (js_neg b)"

text \<open>
  \<^verbatim>\<open>a * b\<close> and \<^verbatim>\<open>a / b\<close>, rounded likewise. A finite value divided by zero is an infinity
  of the sign of the dividend, and \<^verbatim>\<open>0 / 0\<close> is \<^verbatim>\<open>NaN\<close>; nothing is thrown.
\<close>

definition signed_infinity :: "bool \<Rightarrow> number" where
  "signed_infinity positive = (if positive then PlusInfinity else MinusInfinity)"

fun js_mul :: "number \<Rightarrow> number \<Rightarrow> number" where
  "js_mul NotANumber _ = NotANumber"
| "js_mul _ NotANumber = NotANumber"
| "js_mul (Finite a) (Finite b) = js_round (a * b)"
| "js_mul (Finite a) PlusInfinity = (if a = 0 then NotANumber else signed_infinity (0 < a))"
| "js_mul (Finite a) MinusInfinity = (if a = 0 then NotANumber else signed_infinity (a < 0))"
| "js_mul PlusInfinity (Finite b) = (if b = 0 then NotANumber else signed_infinity (0 < b))"
| "js_mul MinusInfinity (Finite b) = (if b = 0 then NotANumber else signed_infinity (b < 0))"
| "js_mul PlusInfinity PlusInfinity = PlusInfinity"
| "js_mul MinusInfinity MinusInfinity = PlusInfinity"
| "js_mul PlusInfinity MinusInfinity = MinusInfinity"
| "js_mul MinusInfinity PlusInfinity = MinusInfinity"

fun js_div :: "number \<Rightarrow> number \<Rightarrow> number" where
  "js_div NotANumber _ = NotANumber"
| "js_div _ NotANumber = NotANumber"
| "js_div (Finite a) (Finite b) =
     (if b = 0 then (if a = 0 then NotANumber else signed_infinity (0 < a))
      else js_round (a / b))"
| "js_div (Finite a) _ = Finite 0"
| "js_div PlusInfinity (Finite b) = signed_infinity (0 \<le> b)"
| "js_div MinusInfinity (Finite b) = signed_infinity (b < 0)"
| "js_div _ _ = NotANumber"

section \<open>\<^verbatim>\<open>getAccountBalance\<close>\<close>

record AccountBalance =
  asset :: string
  free :: number
  locked :: number
  total :: number

text \<open>
  One row of Delta's \<^verbatim>\<open>/v2/wallet/balances\<close> and the body of the response. The rows are
  mapped as they come: no row is dropped, and \<^verbatim>\<open>locked\<close> is the exchange's \<^verbatim>\<open>order_margin\<close>.
\<close>

record delta_balance =
  asset_symbol :: string
  available_balance :: number
  order_margin :: number
  wallet_balance :: number

record delta_balances =
  db_success :: bool
  db_result :: "delta_balance list"

definition delta_balance_row :: "delta_balance \<Rightarrow> AccountBalance" where
  "delta_balance_row balance =
     \<lparr>asset = asset_symbol balance, free = available_balance balance,
      locked = order_margin balance, total = wallet_balance balance\<rparr>"

definition delta_getAccountBalance ::
  "nat \<Rightarrow> delta_balances rest_outcome \<Rightarrow> broker \<Rightarrow> (js_error + AccountBalance list) \<times> broker" where
  "delta_getAccountBalance now out br =
     (case rate_guard ''balance'' 10 now br of
        (Inl e, br1) \<Rightarrow> (Inl (handleError e), br1)
      | (Inr _, br1) \<Rightarrow>
          (case apiClient out of
             Inl e \<Rightarrow> (Inl (handleError e), br1)
           | Inr response \<Rightarrow>
               if \<not> db_success response
               then (Inl (handleError (new_Error ''Failed to fetch balance'')), br1)
               else (Inr (map delta_balance_row (db_result response)), br1)))"

text \<open>
  Binance-Futures: the body of \<^verbatim>\<open>/fapi/v2/balance\<close> is the list of rows; rows with
  \<^verbatim>\<open>parseFloat(balance.balance) > 0\<close> are kept and \<^verbatim>\<open>locked\<close> is computed.
\<close>

record binance_balance =
  bb_asset :: string
  bb_balance :: number
  bb_availableBalance :: number

definition binance_balance_row :: "binance_balance \<Rightarrow> AccountBalance" where
  "binance_balance_row balance =
     \<lparr>asset = bb_asset balance, free = bb_availableBalance balance,
      locked = js_sub (bb_balance balance) (bb_availableBalance balance),
      total = bb_balance balance\<rparr>"

definition binance_getAccountBalance ::
  "nat \<Rightarrow> binance_balance list rest_outcome \<Rightarrow> broker
     \<Rightarrow> (js_error + AccountBalance list) \<times> broker" where
  "binance_getAccountBalance now out br =
     (case rate_guard ''balance'' 10 now br of
        (Inl e, br1) \<Rightarrow> (Inl (handleError e), br1)
      | (Inr _, br1) \<Rightarrow>
          (case apiClient out of
             Inl e \<Rightarrow> (Inl (handleError e), br1)
           | Inr response \<Rightarrow>
               (Inr (map binance_balance_row
                       (filter (\<lambda>balance. js_positive (bb_balance balance)) response)), br1)))"

text \<open>
  Bybit: \<^verbatim>\<open>result.list\<close> is a list of accounts, each with a list \<^verbatim>\<open>coin\<close>; the two nested
  \<^verbatim>\<open>forEach\<close> loops push the coins with a positive wallet balance, in order.
\<close>

record bybit_coin =
  bc_coin :: string
  bc_walletBalance :: number
  bc_availableToWithdraw :: number

record bybit_wallet =
  bw_retCode :: int
  bw_list :: "bybit_coin list list"

definition bybit_balance_row :: "bybit_coin \<Rightarrow> AccountBalance" where
  "bybit_balance_row coin =
     \<lparr>asset = bc_coin coin, free = bc_availableToWithdraw coin,
      locked = js_sub (bc_walletBalance coin) (bc_availableToWithdraw coin),
      total = bc_walletBalance coin\<rparr>"

definition bybit_getAccountBalance ::
  "nat \<Rightarrow> bybit_wallet rest_outcome \<Rightarrow> broker \<Rightarrow> (js_error + AccountBalance list) \<times> broker" where
  "bybit_getAccountBalance now out br =
     (case rate_guard ''balance'' 10 now br of
        (Inl e, br1) \<Rightarrow> (Inl (handleError e), br1)
      | (Inr _, br1) \<Rightarrow>
          (case apiClient out of
             Inl e \<Rightarrow> (Inl (handleError e), br1)
           | Inr response \<Rightarrow>
               if bw_retCode response \<noteq> 0
               then (Inl (handleError (new_Error ''Failed to fetch balance'')), br1)
               else (Inr (concat (map (\<lambda>account.
                            map bybit_balance_row
                              (filter (\<lambda>coin. js_positive (bc_walletBalance coin)) account))
                          (bw_list response))), br1)))"

text \<open>OKX: \<^verbatim>\<open>data.data\<close> is a list of accounts, each with a list \<^verbatim>\<open>details\<close>.\<close>

record okx_detail =
  od_ccy :: string
  od_bal :: number
  od_availBal :: number

record okx_balances =
  ob_code :: string
  ob_data :: "okx_detail list list"

definition okx_balance_row :: "okx_detail \<Rightarrow> AccountBalance" where
  "okx_balance_row detail =
     \<lparr>asset = od_ccy detail, free = od_availBal detail,
      locked = js_sub (od_bal detail) (od_availBal detail), total = od_bal detail\<rparr>"

definition okx_getAccountBalance ::
  "nat \<Rightarrow> okx_balances rest_outcome \<Rightarrow> broker \<Rightarrow> (js_error + AccountBalance list) \<times> broker" where
  "okx_getAccountBalance now out br =
     (case rate_guard ''balance'' 10 now br of
        (Inl e, br1) \<Rightarrow> (Inl (handleError e), br1)
      | (Inr _, br1) \<Rightarrow>
          (case apiClient out of
             Inl e \<Rightarrow> (Inl (handleError e), br1)
           | Inr response \<Rightarrow>
               if ob_code response \<noteq> ''0''
               then (Inl (handleError (new_Error ''Failed to fetch balance'')), br1)
               else (Inr (concat (map (\<lambda>account.
                            map okx_balance_row
                              (filter (\<lambda>detail. js_positive (od_bal detail)) account))
                          (ob_data response))), br1)))"

text \<open>
  The invariant of the specification on one row: \<^verbatim>\<open>total > 0\<close>, and \<^verbatim>\<open>total\<close> within
  \<^verbatim>\<open>1e-8\<close> of \<^verbatim>\<open>free + locked\<close>. A comparison with \<^verbatim>\<open>NaN\<close> or between infinities fails.
\<close>

definition within_tolerance :: "number \<Rightarrow> number \<Rightarrow> bool" where
  "within_tolerance a b =
     (case (a, b) of (Finite x, Finite y) \<Rightarrow> \<bar>x - y\<bar> \<le> 1 / 10 ^ 8 | _ \<Rightarrow> False)"

definition balance_invariant :: "AccountBalance \<Rightarrow> bool" where
  "balance_invariant r =
     (js_positive (total r) \<and> within_tolerance (total r) (js_add (free r) (locked r)))"

text \<open>
  What the three connectors that compute \<^verbatim>\<open>locked\<close> give a row: a positive total, the
  rounded difference as \<^verbatim>\<open>locked\<close>, and the invariant for finite \<^verbatim>\<open>free\<close> and \<^verbatim>\<open>total\<close> of
  magnitude below \<^verbatim>\<open>2^25\<close>.
\<close>

definition computed_row :: "AccountBalance \<Rightarrow> bool" where
  "computed_row r =
     (js_positive (total r) \<and> total r \<noteq> Finite 0 \<and> locked r = js_sub (total r) (free r)
      \<and> (\<forall>f t. free r = Finite f \<and> total r = Finite t \<and> \<bar>f\<bar> < 2 ^ 25 \<and> t < 2 ^ 25
             \<longrightarrow> balance_invariant r))"

section \<open>\<^verbatim>\<open>getPositions\<close> of the Bybit connector\<close>

text \<open>
  \<^verbatim>\<open>Position.side\<close> is typed \<^verbatim>\<open>'long' | 'short'\<close>, but Bybit stores
  \<^verbatim>\<open>position.side.toLowerCase()\<close>, whatever string that is.
\<close>

record Position =
  symbol :: string
  side :: string
  position_size :: number
  entryPrice :: number
  markPrice :: number
  pnl :: number
  percentage :: number

text \<open>One row of \<^verbatim>\<open>/v5/position/list\<close> and the body of the response.\<close>

record bybit_position =
  bp_symbol :: string
  bp_side :: string
  bp_size :: number
  bp_avgPrice :: number
  bp_markPrice :: number
  bp_unrealisedPnl :: number
  bp_positionValue :: number

record bybit_positions =
  bps_retCode :: int
  bps_list :: "bybit_position list"

text \<open>
  The mapping of one row. The percentage is
  \<^verbatim>\<open>parseFloat(position.unrealisedPnl) / parseFloat(position.positionValue) * 100\<close>, with no
  test of the divisor.
\<close>

definition bybit_position_row :: "bybit_position \<Rightarrow> Position" where
  "bybit_position_row position =
     \<lparr>symbol = bp_symbol position,
      side = toLowerCase (bp_side position),
      position_size = bp_size position,
      entryPrice = bp_avgPrice position,
      markPrice = bp_markPrice position,
      pnl = bp_unrealisedPnl position,
      percentage =
        js_mul (js_div (bp_unrealisedPnl position) (bp_positionValue position)) (Finite 100)\<rparr>"

definition bybit_getPositions ::
  "nat \<Rightarrow> bybit_positions rest_outcome \<Rightarrow> broker \<Rightarrow> (js_error + Position list) \<times> broker" where
  "bybit_getPositions now out br =
     (case rate_guard ''positions'' 10 now br of
        (Inl e, br1) \<Rightarrow> (Inl (handleError e), br1)
      | (Inr _, br1) \<Rightarrow>
          (case apiClient out of
             Inl e \<Rightarrow> (Inl (handleError e), br1)
           | Inr response \<Rightarrow>
               if bps_retCode response \<noteq> 0
               then (Inl (handleError (new_Error ''Failed to fetch positions'')), br1)
               else (Inr (map bybit_position_row
                            (filter (\<lambda>pos. js_nonzero (bp_size pos)) (bps_list response))),
                     br1)))"

section \<open>\<^verbatim>\<open>placeOrder\<close>\<close>

datatype order_side = buy | sell

text \<open>The order types \<^verbatim>\<open>'market'\<close> and \<^verbatim>\<open>'limit'\<close>.\<close>

datatype order_type = market_order | limit_order

datatype time_in_force = GTC | IOC | FOK

record TradeOrder =
  o_symbol :: string
  o_side :: order_side
  o_type :: order_type
  o_quantity :: number
  o_price :: "number option"
  o_stopPrice :: "number option"
  o_timeInForce :: "time_in_force option"

text \<open>
  \<^verbatim>\<open>TradeResult\<close>. The side is typed \<^verbatim>\<open>'buy' | 'sell'\<close>, but Binance-Futures stores the
  lower-cased string of the response; the time stamp is in milliseconds.
\<close>

record TradeResult =
  orderId :: string
  r_symbol :: string
  r_side :: string
  quantity :: number
  price :: number
  status :: order_status
  timestamp :: nat
  fees :: number

fun side_string :: "order_side \<Rightarrow> string" where
  "side_string buy = ''buy''"
| "side_string sell = ''sell''"

text \<open>\<^verbatim>\<open>order.price || 0\<close>: a missing price, a zero and \<^verbatim>\<open>NaN\<close> are falsy.\<close>

definition price_or_zero :: "number option \<Rightarrow> number" where
  "price_or_zero p =
     (case p of
        None \<Rightarrow> Finite 0
      | Some x \<Rightarrow> if x = Finite 0 \<or> x = NotANumber then Finite 0 else x)"

text \<open>
  The request bodies are built from the order and sent; the response is an input of the
  model, so they do not appear below.

  Delta. \<^verbatim>\<open>getProductId\<close> fetches \<^verbatim>\<open>/v2/products\<close> (rows of symbol and id) and takes the
  first row of the symbol; it wraps its own errors. The order response carries
  \<^verbatim>\<open>success\<close>, an optional \<^verbatim>\<open>error.message\<close> and the order; \<^verbatim>\<open>do_price\<close> is the number of
  \<^verbatim>\<open>limit_price || average_fill_price || '0'\<close> and \<^verbatim>\<open>do_commission\<close> that of
  \<^verbatim>\<open>commission || '0'\<close>.
\<close>

definition delta_getProductId :: "string \<Rightarrow> (string \<times> nat) list rest_outcome \<Rightarrow> js_error + nat" where
  "delta_getProductId name out =
     (case apiClient out of
        Inl e \<Rightarrow> Inl (handleError e)
      | Inr products \<Rightarrow>
          (case find (\<lambda>p. fst p = name) products of
             None \<Rightarrow> Inl (handleError (new_Error (''Product not found for symbol: '' @ name)))
           | Some product \<Rightarrow> Inr (snd product)))"

record delta_order =
  do_id :: string
  do_size :: number
  do_price :: number
  do_state :: string
  do_created_at :: nat
  do_commission :: number

record delta_order_response =
  dor_success :: bool
  dor_error_message :: "string option"
  dor_result :: delta_order

definition delta_placeOrder ::
  "TradeOrder \<Rightarrow> nat \<Rightarrow> (string \<times> nat) list rest_outcome \<Rightarrow> delta_order_response rest_outcome
     \<Rightarrow> broker \<Rightarrow> (js_error + TradeResult) \<times> broker" where
  "delta_placeOrder order now products out br =
     (case rate_guard ''order'' 20 now br of
        (Inl e, br1) \<Rightarrow> (Inl (handleError e), br1)
      | (Inr _, br1) \<Rightarrow>
          (case delta_getProductId (o_symbol order) products of
             Inl e \<Rightarrow> (Inl (handleError e), br1)
           | Inr product_id \<Rightarrow>
               (case apiClient out of
                  Inl e \<Rightarrow> (Inl (handleError e), br1)
                | Inr response \<Rightarrow>
                    if \<not> dor_success response
                    then (Inl (handleError (new_Error
                            (case dor_error_message response of
                               None \<Rightarrow> ''Order placement failed''
                             | Some m \<Rightarrow> if m = [] then ''Order placement failed'' else m))),
                          br1)
                    else (let result = dor_result response
                          in (Inr \<lparr>orderId = do_id result,
                                   r_symbol = o_symbol order,
                                   r_side = side_string (o_side order),
                                   quantity = do_size result,
                                   price = do_price result,
                                   status = delta_mapOrderStatus (do_state result),
                                   timestamp = do_created_at result,
                                   fees = do_commission result\<rparr>, br1)))))"

text \<open>
  Binance-Futures: every field of the result is read from the response; \<^verbatim>\<open>bo_price\<close> is the
  number of \<^verbatim>\<open>price || avgPrice || '0'\<close>.
\<close>

record binance_order =
  bo_orderId :: string
  bo_symbol :: string
  bo_side :: string
  bo_origQty :: number
  bo_price :: number
  bo_status :: string
  bo_updateTime :: nat

definition binance_placeOrder ::
  "TradeOrder \<Rightarrow> nat \<Rightarrow> binance_order rest_outcome \<Rightarrow> broker
     \<Rightarrow> (js_error + TradeResult) \<times> broker" where
  "binance_placeOrder order now out br =
     (case rate_guard ''order'' 20 now br of
        (Inl e, br1) \<Rightarrow> (Inl (handleError e), br1)
      | (Inr _, br1) \<Rightarrow>
          (case apiClient out of
             Inl e \<Rightarrow> (Inl (handleError e), br1)
           | Inr response \<Rightarrow>
               (Inr \<lparr>orderId = bo_orderId response,
                     r_symbol = bo_symbol response,
                     r_side = toLowerCase (bo_side response),
                     quantity = bo_origQty response,
                     price = bo_price response,
                     status = binance_mapOrderStatus (bo_status response),
                     timestamp = bo_updateTime response,
                     fees = Finite 0\<rparr>, br1)))"

text \<open>
  Bybit: of the acknowledgment the code reads \<^verbatim>\<open>retCode\<close>, \<^verbatim>\<open>retMsg\<close> and
  \<^verbatim>\<open>result.orderId\<close>. \<^verbatim>\<open>yo_orderStatus\<close> stands for a status the acknowledgment may carry;
  \<^verbatim>\<open>placeOrder\<close> does not read it and writes the literal \<^verbatim>\<open>'pending'\<close>.
\<close>

record bybit_order_response =
  yo_retCode :: int
  yo_retMsg :: string
  yo_orderId :: string
  yo_orderStatus :: "string option"

definition bybit_placeOrder ::
  "TradeOrder \<Rightarrow> nat \<Rightarrow> bybit_order_response rest_outcome \<Rightarrow> broker
     \<Rightarrow> (js_error + TradeResult) \<times> broker" where
  "bybit_placeOrder order now out br =
     (case rate_guard ''order'' 20 now br of
        (Inl e, br1) \<Rightarrow> (Inl (handleError e), br1)
      | (Inr _, br1) \<Rightarrow>
          (case apiClient out of
             Inl e \<Rightarrow> (Inl (handleError e), br1)
           | Inr response \<Rightarrow>
               if yo_retCode response \<noteq> 0
               then (Inl (handleError (new_Error
                       (if yo_retMsg response = [] then ''Order placement failed''
                        else yo_retMsg response))), br1)
               else (Inr \<lparr>orderId = yo_orderId response,
                          r_symbol = o_symbol order,
                          r_side = side_string (o_side order),
                          quantity = o_quantity order,
                          price = price_or_zero (o_price order),
                          status = pending,
                          timestamp = now,
                          fees = Finite 0\<rparr>, br1)))"

text \<open>
  OKX: the result is \<^verbatim>\<open>response.data.data[0]\<close>, and the status is \<^verbatim>\<open>mapOrderStatus\<close> of its
  \<^verbatim>\<open>sCode\<close>. With an empty \<^verbatim>\<open>data\<close> the read of \<^verbatim>\<open>result.ordId\<close> throws a \<^verbatim>\<open>TypeError\<close>,
  which the \<^verbatim>\<open>catch\<close> wraps.
\<close>

record okx_order_ack =
  oa_ordId :: string
  oa_sCode :: string

record okx_order_response =
  oo_code :: string
  oo_msg :: string
  oo_data :: "okx_order_ack list"

definition okx_placeOrder ::
  "TradeOrder \<Rightarrow> nat \<Rightarrow> okx_order_response rest_outcome \<Rightarrow> broker
     \<Rightarrow> (js_error + TradeResult) \<times> broker" where
  "okx_placeOrder order now out br =
     (case rate_guard ''order'' 20 now br of
        (Inl e, br1) \<Rightarrow> (Inl (handleError e), br1)
      | (Inr _, br1) \<Rightarrow>
          (case apiClient out of
             Inl e \<Rightarrow> (Inl (handleError e), br1)
           | Inr response \<Rightarrow>
               if oo_code response \<noteq> ''0''
               then (Inl (handleError (new_Error
                       (if oo_msg response = [] then ''Order placement failed''
                        else oo_msg response))), br1)
               else (case oo_data response of
                       [] \<Rightarrow> (Inl (handleError (new_Error
                                ''Cannot read properties of undefined (reading ordId)'')), br1)
                     | result # _ \<Rightarrow>
                         (Inr \<lparr>orderId = oa_ordId result,
                               r_symbol = o_symbol order,
                               r_side = side_string (o_side order),
                               quantity = o_quantity order,
                               price = price_or_zero (o_price order),
                               status = okx_mapOrderStatus (oa_sCode result),
                               timestamp = now,
                               fees = Finite 0\<rparr>, br1))))"

section \<open>The registry \<^verbatim>\<open>BrokerFactory\<close>\<close>

datatype SupportedBroker = DELTA | BINANCE | BYBIT | OKX

text \<open>
  The \<^verbatim>\<open>switch (brokerType)\<close> of \<^verbatim>\<open>createBroker\<close>: the class to construct, or none for the
  \<^verbatim>\<open>default\<close> branch. At run time \<^verbatim>\<open>brokerType\<close> is a string.
\<close>

definition broker_class :: "string \<Rightarrow> SupportedBroker option" where
  "broker_class brokerType =
     (if brokerType = ''DELTA'' then Some DELTA
      else if brokerType = ''BINANCE'' then Some BINANCE
      else if brokerType = ''BYBIT'' then Some BYBIT
      else if brokerType = ''OKX'' then Some OKX
      else None)"

text \<open>A connector object: its class and the state of its fields.\<close>

record connector =
  kind :: SupportedBroker
  state :: broker

text \<open>
  The static \<^verbatim>\<open>instances: Map<string, BaseBroker>\<close> holds references. The registry is
  the map from keys to references, the objects the references point to, and the next
  unused reference, which \<^verbatim>\<open>new\<close> hands out.
\<close>

record factory =
  instances :: "(string \<times> nat) list"
  objects :: "nat \<Rightarrow> connector option"
  next_ref :: nat

definition empty_factory :: factory where
  "empty_factory = \<lparr>instances = [], objects = (\<lambda>r. None), next_ref = 0\<rparr>"

text \<open>
  \<^verbatim>\<open>instanceId || `${brokerType}_${credentials.apiKey.substring(0, 8)}`\<close>: a missing and an
  empty \<^verbatim>\<open>instanceId\<close> are falsy.
\<close>

definition instance_key :: "string \<Rightarrow> BrokerCredentials \<Rightarrow> string option \<Rightarrow> string" where
  "instance_key brokerType creds instanceId =
     (case instanceId of
        Some i \<Rightarrow> if i = [] then brokerType @ ''_'' @ take 8 (apiKey creds) else i
      | None \<Rightarrow> brokerType @ ''_'' @ take 8 (apiKey creds))"

text \<open>
  \<^verbatim>\<open>BrokerFactory.createBroker\<close>. The cache is looked up before the switch; a new object
  is stored under the key. The two listeners it registers only log.
\<close>

definition createBroker ::
  "string \<Rightarrow> BrokerCredentials \<Rightarrow> string option \<Rightarrow> factory \<Rightarrow> js_error + (nat \<times> factory)" where
  "createBroker brokerType creds instanceId f =
     (let key = instance_key brokerType creds instanceId
      in case map_of (instances f) key of
           Some r \<Rightarrow> Inr (r, f)
         | None \<Rightarrow>
             (case broker_class brokerType of
                None \<Rightarrow> Inl (new_Error (''Unsupported broker type: '' @ brokerType))
              | Some k \<Rightarrow>
                  (let r = next_ref f
                   in Inr (r, f\<lparr>instances := AList.update key r (instances f),
                                objects := (objects f)(r \<mapsto> \<lparr>kind = k, state = new_broker creds\<rparr>),
                                next_ref := Suc r\<rparr>))))"

text \<open>\<^verbatim>\<open>disconnect\<close>, the same in the four classes: the socket is closed and dropped.\<close>

definition disconnect :: "broker \<Rightarrow> broker" where
  "disconnect br = br\<lparr>wsClient := None, isConnected := False\<rparr>"

text \<open>\<^verbatim>\<open>BrokerFactory.disconnectBroker\<close>: nothing happens for an unknown id.\<close>

definition disconnectBroker :: "string \<Rightarrow> factory \<Rightarrow> factory" where
  "disconnectBroker instanceId f =
     (case map_of (instances f) instanceId of
        None \<Rightarrow> f
      | Some r \<Rightarrow>
          f\<lparr>instances := AList.delete instanceId (instances f),
            objects := (\<lambda>x. if x = r then map_option (\<lambda>c. c\<lparr>state := disconnect (state c)\<rparr>)
                                          (objects f r)
                           else objects f x)\<rparr>)"

text \<open>
  \<^verbatim>\<open>BrokerFactory.disconnectAllBrokers\<close>: every cached connector is disconnected (a failure
  of one is logged and does not stop the others; \<^verbatim>\<open>disconnect\<close> has none here), then the
  map is cleared.
\<close>

definition disconnectAllBrokers :: "factory \<Rightarrow> factory" where
  "disconnectAllBrokers f =
     f\<lparr>instances := [],
       objects := (\<lambda>x. if x \<in> snd ` set (instances f)
                        then map_option (\<lambda>c. c\<lparr>state := disconnect (state c)\<rparr>) (objects f x)
                        else objects f x)\<rparr>"

text \<open>
  The registry is well formed when every stored reference has been handed out and no
  reference is stored under two keys.
\<close>

definition registry_ok :: "factory \<Rightarrow> bool" where
  "registry_ok f =
     ((\<forall>k r. map_of (instances f) k = Some r \<longrightarrow> r < next_ref f)
      \<and> (\<forall>k1 k2 r. map_of (instances f) k1 = Some r \<and> map_of (instances f) k2 = Some r
            \<longrightarrow> k1 = k2))"

section \<open>Verified properties\<close>

subsection \<open>Decimal digits, \<^verbatim>\<open>parseInt\<close> and \<^verbatim>\<open>split\<close>\<close>

lemma lt10_cases: "d < (10::nat) \<Longrightarrow> d \<in> {0,1,2,3,4,5,6,7,8,9}"
  by auto

lemma digit_of_digit_char: "d < 10 \<Longrightarrow> digit_of 10 (digit_char d) = Some d"
  by (drule lt10_cases) (auto simp: digit_of_def digit_char_def digit_table_def)

lemma is_digit_digit_char: "d < 10 \<Longrightarrow> is_digit (digit_char d)"
  by (drule lt10_cases) (auto simp: digit_char_def is_digit_def)

lemma dec_digits: "\<forall>c \<in> set (dec n). is_digit c"
proof (induction n rule: dec.induct)
  case (1 n)
  show ?case
  proof (cases "n < 10")
    case True
    then show ?thesis by (subst dec.simps) (simp add: is_digit_digit_char)
  next
    case False
    have "n mod 10 < 10" by simp
    then have "is_digit (digit_char (n mod 10))" by (rule is_digit_digit_char)
    with False 1 show ?thesis by (subst dec.simps) simp
  qed
qed

lemma dec_nonempty: "dec n \<noteq> []"
  by (subst dec.simps) simp

lemma digits_value_snoc:
  "digits_value r (ds @ [c]) = digits_value r ds * r + (case digit_of r c of Some d \<Rightarrow> d | None \<Rightarrow> 0)"
  by (simp add: digits_value_def)

lemma digits_value_dec: "digits_value 10 (dec n) = n"
proof (induction n rule: dec.induct)
  case (1 n)
  show ?case
  proof (cases "n < 10")
    case True
    then show ?thesis
      by (subst dec.simps) (simp add: digits_value_def digit_of_digit_char)
  next
    case False
    have m: "n mod 10 < 10" by simp
    from False 1 have "digits_value 10 (dec (n div 10)) = n div 10" by simp
    with False show ?thesis
      by (subst dec.simps) (simp add: digits_value_snoc digit_of_digit_char [OF m])
  qed
qed

lemma is_digit_other:
  "is_digit c \<Longrightarrow> \<not> is_space c"
  "is_digit c \<Longrightarrow> c \<notin> set [CHR ''-'', CHR ''+'', CHR ''x'', CHR ''X'', CHR ''_'']"
  by (auto simp: is_digit_def is_space_def)

lemma is_digit_value: "is_digit c \<Longrightarrow> \<exists>y. digit_of 10 c = Some y"
  unfolding is_digit_def by (simp, elim disjE; simp add: digit_of_def digit_table_def)

lemma is_digit_props:
  assumes "is_digit c"
  shows "\<not> is_space c" "c \<noteq> CHR ''-''" "c \<noteq> CHR ''+''" "c \<noteq> CHR ''x''" "c \<noteq> CHR ''X''"
    "c \<noteq> CHR ''_''" "\<exists>y. digit_of 10 c = Some y"
  using is_digit_other [OF assms] is_digit_value [OF assms] by simp_all

lemma is_digit_first:
  assumes "is_digit c"
  shows "\<not> white_space2 c b" "\<not> white_space3 c b d"
  using assms by (auto simp: is_digit_def white_space2_def white_space3_def)

lemma trim_start_digit:
  assumes "is_digit c"
  shows "trim_start (c # r) = c # r"
proof (cases r)
  case Nil
  then show ?thesis using assms by (simp add: is_digit_props)
next
  case r1: (Cons b r')
  show ?thesis
  proof (cases r')
    case Nil
    then show ?thesis using assms r1 by (simp add: is_digit_props is_digit_first)
  next
    case (Cons d r'')
    then show ?thesis using assms r1 by (simp add: is_digit_props is_digit_first)
  qed
qed

lemma parseInt_digits:
  assumes "ds \<noteq> []" "\<forall>c \<in> set ds. is_digit c"
  shows "parseInt ds = Num (int (digits_value 10 ds))"
proof -
  obtain c r where ds: "ds = c # r" using assms(1) by (cases ds) auto
  have c: "is_digit c" using assms(2) ds by simp
  have s1: "trim_start ds = ds" using c ds by (simp add: trim_start_digit)
  have tw: "takeWhile (\<lambda>c. digit_of 10 c \<noteq> None) ds = ds"
    using assms(2) by (simp add: is_digit_props)
  have sg: "(case ds of
               c # r \<Rightarrow> if c = CHR ''-'' then (True, r)
                        else if c = CHR ''+'' then (False, r) else (False, ds)
             | [] \<Rightarrow> (False, ds)) = (False, ds)"
    using c by (simp add: ds is_digit_props)
  have rad: "(case ds of
                 c # d # r \<Rightarrow> if c = CHR ''0'' \<and> (d = CHR ''x'' \<or> d = CHR ''X'')
                                then (16::nat, r) else (10, ds)
               | _ \<Rightarrow> (10, ds)) = (10, ds)"
  proof (cases r)
    case Nil
    then show ?thesis by (simp add: ds)
  next
    case (Cons d r')
    then have "is_digit d" using assms(2) ds by simp
    then have "d \<noteq> CHR ''x''" "d \<noteq> CHR ''X''" by (simp_all add: is_digit_props)
    then show ?thesis by (simp add: ds Cons)
  qed
  show ?thesis
    unfolding parseInt_def s1 Let_def sg prod.case rad tw
    using assms(1) by simp
qed

lemma parseInt_dec: "parseInt (dec n) = Num (int n)"
  by (simp add: parseInt_digits dec_nonempty dec_digits digits_value_dec)

lemma dec_inj:
  assumes "dec a = dec b"
  shows "a = b"
proof -
  have "parseInt (dec a) = parseInt (dec b)" using assms by (rule arg_cong)
  then show ?thesis unfolding parseInt_dec by simp
qed

lemma dec_no_us: "CHR ''_'' \<notin> set (dec n)"
  using dec_digits [of n] is_digit_props(6) by blast

lemma split_us_nonempty: "split_us s \<noteq> []"
  by (cases s) (simp_all split: list.splits)

lemma split_us_plain: "CHR ''_'' \<notin> set s \<Longrightarrow> split_us s = [s]"
  by (induction s) auto

lemma split_us_append: "split_us (xs @ CHR ''_'' # ys) = split_us xs @ split_us ys"
proof (induction xs)
  case Nil
  show ?case by simp
next
  case (Cons c cs)
  obtain p ps where p: "split_us cs = p # ps"
    using split_us_nonempty [of cs] by (cases "split_us cs") auto
  show ?case
    by (simp add: Cons p)
qed

subsection \<open>One call of \<^verbatim>\<open>checkRateLimit\<close>\<close>

lemma div_minus_self:
  assumes "(b::int) \<noteq> 0"
  shows "(a - b) div b = a div b - 1"
proof -
  have "a div b = ((a - b) + b) div b" by simp
  also have "\<dots> = (a - b) div b + 1" using assms by (rule div_add_self2)
  finally show ?thesis by simp
qed

lemma window_key_pos: "0 < W \<Longrightarrow> window_key e W now = e @ ''_'' @ dec (now div W)"
  by (simp add: window_key_def js_floor_div_def zdiv_int [symmetric])

lemma threshold_pos:
  "0 < W \<Longrightarrow> js_floor_div (int now - int W) (int W) = Num (int (now div W) - 1)"
  by (simp add: js_floor_div_def div_minus_self zdiv_int)

lemma map_of_filter_key:
  "map_of (filter (\<lambda>(k, v). P k) xs) k = (if P k then map_of xs k else None)"
  by (induction xs) auto

lemma split_us_key: "split_us (e @ CHR ''_'' # dec b) = split_us e @ [dec b]"
  by (simp add: split_us_append split_us_plain dec_no_us)

lemma is_old_plain_key:
  assumes "0 < W" "CHR ''_'' \<notin> set e"
  shows "is_old W now (e @ ''_'' @ dec b) = (Suc b < now div W)"
proof -
  have "split_us (e @ CHR ''_'' # dec b) = [e, dec b]"
    using assms(2) by (simp add: split_us_key split_us_plain)
  then show ?thesis
    using assms(1) by (auto simp: is_old_def threshold_pos parseInt_dec dec_nonempty)
qed

lemma not_old_current:
  assumes "plain_endpoint e" "0 < W"
  shows "\<not> is_old W now (window_key e W now)"
proof (cases "split_us e")
  case Nil
  then show ?thesis using split_us_nonempty by blast
next
  case (Cons x xs)
  show ?thesis
  proof (cases xs)
    case Nil
    with Cons show ?thesis
      using assms(2)
      by (simp add: window_key_pos split_us_key is_old_def threshold_pos parseInt_dec)
  next
    case (Cons p ps)
    with \<open>split_us e = x # xs\<close> assms show ?thesis
      by (auto simp: window_key_pos split_us_key is_old_def plain_endpoint_def)
  qed
qed

lemma rate_get_update: "rate_get (AList.update k v rl) k' = (if k' = k then v else rate_get rl k')"
  by (simp add: rate_get_def update_conv')

lemma rate_get_filter:
  "rate_get (filter (\<lambda>(k, v). P k) rl) k = (if P k then rate_get rl k else 0)"
  by (simp add: rate_get_def map_of_filter_key)

lemma checkRateLimit_denied:
  "limit \<le> rate_get rl (window_key e W now) \<Longrightarrow> checkRateLimit e limit W now rl = (False, rl)"
  by (simp add: checkRateLimit_def)

lemma checkRateLimit_admitted:
  assumes "rate_get rl (window_key e W now) < limit"
  shows "fst (checkRateLimit e limit W now rl)"
    and "snd (checkRateLimit e limit W now rl) =
           filter (\<lambda>(k, v). \<not> is_old W now k)
             (AList.update (window_key e W now) (rate_get rl (window_key e W now) + 1) rl)"
  using assms by (simp_all add: checkRateLimit_def Let_def)

lemma checkRateLimit_count:
  assumes "plain_endpoint e" "0 < W" "rate_get rl (window_key e W now) < limit"
  shows "rate_get (snd (checkRateLimit e limit W now rl)) (window_key e W now) =
           rate_get rl (window_key e W now) + 1"
  using assms not_old_current [OF assms(1,2), of now]
  by (simp add: checkRateLimit_admitted rate_get_filter rate_get_update)

lemma checkRateLimit_other_zero:
  assumes "rate_get rl k = 0" "k \<noteq> window_key e W now"
  shows "rate_get (snd (checkRateLimit e limit W now rl)) k = 0"
  using assms by (simp add: checkRateLimit_def Let_def rate_get_filter rate_get_update)

subsection \<open>Calls within one window\<close>

lemma check_calls_same_window:
  assumes "plain_endpoint e" "0 < W" "\<forall>t \<in> set ts. t div W = b"
    and "rate_get rl (e @ ''_'' @ dec b) = c"
  shows "fst (check_calls e limit W ts rl) = map (\<lambda>i. c + i < limit) [0 ..< length ts]
       \<and> rate_get (snd (check_calls e limit W ts rl)) (e @ ''_'' @ dec b)
           = (if limit \<le> c then c else min limit (c + length ts))
       \<and> (\<forall>k. k \<noteq> e @ ''_'' @ dec b \<longrightarrow> rate_get rl k = 0
              \<longrightarrow> rate_get (snd (check_calls e limit W ts rl)) k = 0)"
  using assms(3,4)
proof (induction ts arbitrary: rl c)
  case Nil
  then show ?case by simp
next
  case (Cons t ts)
  have key: "window_key e W t = e @ ''_'' @ dec b"
    using Cons.prems(1) assms(2) by (simp add: window_key_pos)
  have same: "\<forall>t \<in> set ts. t div W = b" using Cons.prems(1) by simp
  obtain r rl1 where step: "checkRateLimit e limit W t rl = (r, rl1)"
    by (cases "checkRateLimit e limit W t rl")
  have up: "[0 ..< Suc (length ts)] = 0 # map Suc [0 ..< length ts]"
    by (simp add: upt_conv_Cons map_Suc_upt del: upt_Suc)
  show ?case
  proof (cases "limit \<le> c")
    case True
    then have "checkRateLimit e limit W t rl = (False, rl)"
      using Cons.prems(2) key by (simp add: checkRateLimit_denied)
    with step have r: "r = False" "rl1 = rl" by simp_all
    from Cons.IH [OF same Cons.prems(2)] True
    show ?thesis
      by (simp add: step r up split_beta comp_def del: upt_Suc)
  next
    case False
    then have lt: "rate_get rl (window_key e W t) < limit"
      using Cons.prems(2) key by simp
    have r: "r" using checkRateLimit_admitted(1) [OF lt] step by simp
    have c1: "rate_get rl1 (e @ ''_'' @ dec b) = Suc c"
      using checkRateLimit_count [OF assms(1,2) lt] step key Cons.prems(2) by simp
    have other: "\<forall>k. k \<noteq> e @ ''_'' @ dec b \<longrightarrow> rate_get rl k = 0 \<longrightarrow> rate_get rl1 k = 0"
      using checkRateLimit_other_zero [of rl _ e W t limit] step key by simp
    from Cons.IH [OF same c1] False other
    show ?thesis
      by (auto simp: step r up split_beta comp_def min_def simp del: upt_Suc)
  qed
qed

subsection \<open>The fixed-window limit and the clean-up\<close>

lemmas rate_eval = checkRateLimit_def window_key_def js_floor_div_def rate_get_def is_old_def
  parseInt_def digits_value_def digit_of_def digit_table_def is_space_def white_space2_def
  white_space3_def digit_char_def dec.simps Let_def plain_endpoint_def

text \<open>
  Where the limiter does limit. For a plain endpoint and a positive window length,
  consecutive calls whose clock readings fall in one window \<open>b\<close>, starting from a map with
  no count for that window, are answered true for the first \<open>limit\<close> of them and false
  from then on; the counter of the window ends at the number of admitted calls, so a denied
  call does not count. If the map had no count for window \<open>b + 1\<close> either and the limit is
  positive, the next call in window \<open>b + 1\<close> is admitted again. Eleven calls of
  \<^verbatim>\<open>checkRateLimit("order", 10, 60000)\<close> in one window are the second lemma.
\<close>

lemma checkRateLimit_fixed_window:
  assumes "plain_endpoint endpoint" and "0 < windowMs"
    and "\<forall>t \<in> set ts. t div windowMs = b"
    and "rate_get rl (endpoint @ ''_'' @ dec b) = 0"
    and "rate_get rl (endpoint @ ''_'' @ dec (Suc b)) = 0"
    and "t' div windowMs = Suc b"
  shows "fst (check_calls endpoint limit windowMs ts rl) = map (\<lambda>i. i < limit) [0 ..< length ts]
       \<and> rate_get (snd (check_calls endpoint limit windowMs ts rl)) (endpoint @ ''_'' @ dec b)
           = min limit (length ts)
       \<and> (0 < limit \<longrightarrow>
            fst (checkRateLimit endpoint limit windowMs t' (snd (check_calls endpoint limit windowMs ts rl))))"
proof -
  let ?rl' = "snd (check_calls endpoint limit windowMs ts rl)"
  note run = check_calls_same_window [OF assms(1,2,3,4), of limit]
  have ne: "endpoint @ ''_'' @ dec (Suc b) \<noteq> endpoint @ ''_'' @ dec b"
    using dec_inj [of "Suc b" b] by auto
  have next_zero: "rate_get ?rl' (endpoint @ ''_'' @ dec (Suc b)) = 0"
    using run ne assms(5) by blast
  have key: "window_key endpoint windowMs t' = endpoint @ ''_'' @ dec (Suc b)"
    using assms(2,6) by (simp add: window_key_pos)
  have "0 < limit \<longrightarrow> fst (checkRateLimit endpoint limit windowMs t' ?rl')"
    using checkRateLimit_admitted(1) [of ?rl' endpoint windowMs t' limit] next_zero key by simp
  moreover have "rate_get ?rl' (endpoint @ ''_'' @ dec b) = min limit (length ts)"
    using run by (auto simp: min_def)
  moreover have "fst (check_calls endpoint limit windowMs ts rl) = map (\<lambda>i. i < limit) [0 ..< length ts]"
    using run by simp
  ultimately show ?thesis by blast
qed

lemma checkRateLimit_fixed_window_order:
  "plain_endpoint ''order'' \<and> (0::nat) < 60000
   \<and> fst (check_calls ''order'' 10 60000
        [1700000000000, 1700000000001, 1700000000500, 1700000001000, 1700000002000,
         1700000003000, 1700000004000, 1700000005000, 1700000006000, 1700000007000,
         1700000008000] [])
       = [True, True, True, True, True, True, True, True, True, True, False]
   \<and> fst (checkRateLimit ''order'' 10 60000 1700000040000
        (snd (check_calls ''order'' 10 60000
          [1700000000000, 1700000000001, 1700000000500, 1700000001000, 1700000002000,
           1700000003000, 1700000004000, 1700000005000, 1700000006000, 1700000007000,
           1700000008000] [])))"
proof -
  let ?ts = "[1700000000000, 1700000000001, 1700000000500, 1700000001000, 1700000002000,
         1700000003000, 1700000004000, 1700000005000, 1700000006000, 1700000007000,
         1700000008000] :: nat list"
  have h1: "plain_endpoint ''order''" by (simp add: plain_endpoint_def)
  have h2: "(0::nat) < 60000" by simp
  have h3: "\<forall>t \<in> set ?ts. t div 60000 = 28333333" by simp
  have h4: "rate_get [] (''order'' @ ''_'' @ dec 28333333) = 0" by (simp add: rate_get_def)
  have h5: "rate_get [] (''order'' @ ''_'' @ dec (Suc 28333333)) = 0" by (simp add: rate_get_def)
  have h6: "(1700000040000::nat) div 60000 = Suc 28333333" by simp
  have h7: "(0::nat) < 10" by simp
  have m: "map (\<lambda>i. i < (10::nat)) [0 ..< length ?ts]
             = [True, True, True, True, True, True, True, True, True, True, False]"
    by (simp add: upt_rec)
  note run = checkRateLimit_fixed_window [OF h1 h2 h3 h4 h5 h6, of 10]
  have a: "fst (check_calls ''order'' 10 60000 ?ts [])
             = [True, True, True, True, True, True, True, True, True, True, False]"
    using run [THEN conjunct1] unfolding m .
  have b: "fst (checkRateLimit ''order'' 10 60000 1700000040000
             (snd (check_calls ''order'' 10 60000 ?ts [])))"
    using run [THEN conjunct2, THEN conjunct2] h7 by (rule mp)
  show ?thesis using h1 h2 a b by (intro conjI)
qed

text \<open>
  C6 against the code. The claim is for any endpoint. For the endpoint name \<^verbatim>\<open>x_0\<close>, limit 1
  and a window of 60000 ms, two calls at 180000 and 180001 fall in the same window 3. The
  first call writes the key \<^verbatim>\<open>x_0_3\<close>; the clean-up loop, meant to remove old entries, reads
  the piece \<^verbatim>\<open>0\<close> of that key as its window index, finds it below 2 and deletes the key just
  written. The second call finds no count and is admitted too, where the claim has it
  denied; the map is empty after both.
\<close>

theorem checkRateLimit_numeric_endpoint_admits_twice:
  "(180000::nat) div 60000 = 180001 div 60000
   \<and> checkRateLimit ''x_0'' 1 60000 180000 [] = (True, [])
   \<and> checkRateLimit ''x_0'' 1 60000 180001 [] = (True, [])
   \<and> check_calls ''x_0'' 1 60000 [180000, 180001] [] = ([True, True], [])"
  by (simp add: rate_eval)

text \<open>
  C7 (as amended). Take a positive window length and an endpoint name \<open>e\<close> without
  underscore. After an admitted call, the key of \<open>e\<close> for window \<open>b\<close> is gone when \<open>b + 1\<close> is
  below the current window; otherwise it is kept with its count, and the key of the current
  window holds its count plus one. So the keys of the window just before the current one
  stay. A denied call returns the map as it was.
\<close>

theorem checkRateLimit_cleanup:
  assumes "0 < windowMs" and "CHR ''_'' \<notin> set e"
    and "checkRateLimit endpoint limit windowMs now rl = (r, rl')"
  shows "(r \<longrightarrow> map_of rl' (e @ ''_'' @ dec b) =
            (if Suc b < now div windowMs then None
             else if e @ ''_'' @ dec b = window_key endpoint windowMs now
               then Some (rate_get rl (window_key endpoint windowMs now) + 1)
               else map_of rl (e @ ''_'' @ dec b)))
       \<and> (\<not> r \<longrightarrow> rl' = rl)"
proof (cases "limit \<le> rate_get rl (window_key endpoint windowMs now)")
  case True
  then show ?thesis using assms(3) by (simp add: checkRateLimit_denied)
next
  case False
  then have lt: "rate_get rl (window_key endpoint windowMs now) < limit" by simp
  have r: "r" using checkRateLimit_admitted(1) [OF lt] assms(3) by simp
  have rl': "rl' = filter (\<lambda>(k, v). \<not> is_old windowMs now k)
      (AList.update (window_key endpoint windowMs now)
         (rate_get rl (window_key endpoint windowMs now) + 1) rl)"
    using checkRateLimit_admitted(2) [OF lt] assms(3) by simp
  have old: "is_old windowMs now (e @ ''_'' @ dec b) = (Suc b < now div windowMs)"
    using is_old_plain_key [OF assms(1,2)] .
  have "map_of rl' (e @ ''_'' @ dec b) =
            (if Suc b < now div windowMs then None
             else if e @ ''_'' @ dec b = window_key endpoint windowMs now
               then Some (rate_get rl (window_key endpoint windowMs now) + 1)
               else map_of rl (e @ ''_'' @ dec b))"
    unfolding rl' map_of_filter_key old by (simp add: update_conv')
  then show ?thesis using r by simp
qed

theorem checkRateLimit_cleanup_witness:
  "checkRateLimit ''order'' 10 60000 180000 [(''order_0'', 3), (''order_2'', 1), (''order_3'', 2)]
      = (True, [(''order_2'', 1), (''order_3'', 3)])
   \<and> map_of [(''order_2'', 1), (''order_3'', 3::nat)] (''order'' @ ''_'' @ dec 0) = None
   \<and> map_of [(''order_2'', 1), (''order_3'', 3::nat)] (''order'' @ ''_'' @ dec 2) = Some 1"
proof -
  let ?rl = "[(''order_0'', 3), (''order_2'', 1), (''order_3'', 2::nat)]"
  let ?rl' = "[(''order_2'', 1), (''order_3'', 3::nat)]"
  have w: "(0::nat) < 60000" by simp
  have e: "CHR ''_'' \<notin> set ''order''" by simp
  have h: "checkRateLimit ''order'' 10 60000 180000 ?rl = (True, ?rl')"
    by (simp add: rate_eval)
  have gone: "map_of ?rl' (''order'' @ ''_'' @ dec 0) = None"
    using checkRateLimit_cleanup [OF w e h, of 0] by simp
  have other: "''order'' @ ''_'' @ dec 2 \<noteq> window_key ''order'' 60000 180000"
    by (simp add: rate_eval)
  have "map_of ?rl' (''order'' @ ''_'' @ dec 2) = map_of ?rl (''order'' @ ''_'' @ dec 2)"
    using checkRateLimit_cleanup [OF w e h, of 2] other by simp
  also have "\<dots> = Some 1" by (simp add: rate_eval)
  finally have kept: "map_of ?rl' (''order'' @ ''_'' @ dec 2) = Some 1" .
  show ?thesis using h gone kept by (intro conjI)
qed

text \<open>
  C7 as stated fails in three ways. An admitted call in window 1 keeps the key of window 0,
  which is older than the current window. A denied call in window 3 removes nothing, so the
  key of window 0 is still there. And for the endpoint \<^verbatim>\<open>order_status\<close> the clean-up test
  reads the piece \<^verbatim>\<open>status\<close> as the window, so an admitted call in window 5 keeps the key
  of window 0.
\<close>

theorem checkRateLimit_cleanup_counterexample:
  "checkRateLimit ''order'' 1 60000 60000 [(''order_0'', 1)]
      = (True, [(''order_0'', 1), (''order_1'', 1)])
   \<and> checkRateLimit ''order'' 1 60000 180001 [(''order_0'', 1), (''order_3'', 1)]
      = (False, [(''order_0'', 1), (''order_3'', 1)])
   \<and> checkRateLimit ''order_status'' 10 60000 300000 [(''order_status_0'', 1)]
      = (True, [(''order_status_0'', 1), (''order_status_5'', 1)])"
  by (simp add: rate_eval)

subsection \<open>The status tables\<close>

text \<open>
  C8 (as amended). Binance-Futures, Bybit and OKX map every string as the table of
  section 4.2 says: a documented native status to its normalised status, any other string
  to pending. Delta does the same after lower-casing its input, so any letter-case variant
  of a documented Delta status maps to that status's normalised value, and a string whose
  lower-casing is not documented maps to pending.
\<close>

theorem mapOrderStatus_table:
  "binance_mapOrderStatus s = table_status binance_table s
   \<and> bybit_mapOrderStatus s = table_status bybit_table s
   \<and> okx_mapOrderStatus s = table_status okx_table s
   \<and> delta_mapOrderStatus s = table_status delta_table (toLowerCase s)"
proof (intro conjI)
  show "binance_mapOrderStatus s = table_status binance_table s"
    by (simp add: binance_mapOrderStatus_def table_status_def binance_table_def)
  show "bybit_mapOrderStatus s = table_status bybit_table s"
    by (simp add: bybit_mapOrderStatus_def table_status_def bybit_table_def)
  show "okx_mapOrderStatus s = table_status okx_table s"
    by (simp add: okx_mapOrderStatus_def table_status_def okx_table_def)
  show "delta_mapOrderStatus s = table_status delta_table (toLowerCase s)"
    by (simp add: delta_mapOrderStatus_def table_status_def delta_table_def)
qed

text \<open>
  C8 as stated fails for Delta: \<^verbatim>\<open>FILLED\<close> is not a documented Delta status (the table
  has \<^verbatim>\<open>filled\<close>), so the claim sends it to pending, and the code returns filled.
\<close>

theorem delta_mapOrderStatus_counterexample:
  "map_of delta_table ''FILLED'' = None \<and> delta_mapOrderStatus ''FILLED'' = filled
   \<and> delta_mapOrderStatus ''FILLED'' \<noteq> table_status delta_table ''FILLED''"
  by (simp add: delta_mapOrderStatus_def table_status_def delta_table_def toLowerCase_def
      toLowerChar_def)

subsection \<open>Validation and connection\<close>

lemma rate_guard_fst:
  "fst (rate_guard e l now br) =
     (if fst (checkRateLimit e l 60000 now (rateLimiter br)) then Inr ()
      else Inl (new_Error ''Rate limit exceeded''))"
  by (simp add: rate_guard_def split_beta)

lemma validate_try_results:
  "fst (delta_validate_try now d br) =
     (if fst (checkRateLimit ''validate'' 10 60000 now (rateLimiter br))
      then (case d of Resolved r \<Rightarrow> Inr (dp_status r = 200 \<and> dp_success r)
                    | Rejected e \<Rightarrow> Inl (handleError e))
      else Inl (new_Error ''Rate limit exceeded''))"
  "fst (binance_validate_try now b br) =
     (if fst (checkRateLimit ''validate'' 10 60000 now (rateLimiter br))
      then (case b of Resolved r \<Rightarrow> Inr (ba_status r = 200 \<and> ba_canTrade r)
                    | Rejected e \<Rightarrow> Inl (handleError e))
      else Inl (new_Error ''Rate limit exceeded''))"
  "fst (bybit_validate_try now y br) =
     (if fst (checkRateLimit ''validate'' 10 60000 now (rateLimiter br))
      then (case y of Resolved r \<Rightarrow> Inr (bi_retCode r = 0)
                    | Rejected e \<Rightarrow> Inl (handleError e))
      else Inl (new_Error ''Rate limit exceeded''))"
  "fst (okx_validate_try now x br) =
     (if fst (checkRateLimit ''validate'' 10 60000 now (rateLimiter br))
      then (case x of Resolved r \<Rightarrow> Inr (oc_code r = ''0'')
                    | Rejected e \<Rightarrow> Inl (handleError e))
      else Inl (new_Error ''Rate limit exceeded''))"
  by (simp_all add: delta_validate_try_def binance_validate_try_def bybit_validate_try_def
      okx_validate_try_def rate_guard_def apiClient_def split_beta
      split: rest_outcome.splits)

text \<open>
  C1 (as amended). For each of the four connectors \<^verbatim>\<open>validateCredentials\<close> never throws.
  It returns \<^verbatim>\<open>false\<close> when the local rate limit denies the call and when the REST call
  is rejected, whatever the cause (an authentication failure, a timeout, a refused
  connection, a 5xx answer), and otherwise the success test of the response.
\<close>

theorem validateCredentials_total:
  "fst (delta_validateCredentials now d br) =
     Inr (fst (checkRateLimit ''validate'' 10 60000 now (rateLimiter br))
          \<and> (case d of Resolved r \<Rightarrow> dp_status r = 200 \<and> dp_success r | Rejected e \<Rightarrow> False))
   \<and> fst (binance_validateCredentials now b br) =
     Inr (fst (checkRateLimit ''validate'' 10 60000 now (rateLimiter br))
          \<and> (case b of Resolved r \<Rightarrow> ba_status r = 200 \<and> ba_canTrade r | Rejected e \<Rightarrow> False))
   \<and> fst (bybit_validateCredentials now y br) =
     Inr (fst (checkRateLimit ''validate'' 10 60000 now (rateLimiter br))
          \<and> (case y of Resolved r \<Rightarrow> bi_retCode r = 0 | Rejected e \<Rightarrow> False))
   \<and> fst (okx_validateCredentials now x br) =
     Inr (fst (checkRateLimit ''validate'' 10 60000 now (rateLimiter br))
          \<and> (case x of Resolved r \<Rightarrow> oc_code r = ''0'' | Rejected e \<Rightarrow> False))"
proof (intro conjI)
  show "fst (delta_validateCredentials now d br) =
     Inr (fst (checkRateLimit ''validate'' 10 60000 now (rateLimiter br))
          \<and> (case d of Resolved r \<Rightarrow> dp_status r = 200 \<and> dp_success r | Rejected e \<Rightarrow> False))"
    using validate_try_results(1) [of now d br]
    by (cases "delta_validate_try now d br")
       (auto simp: delta_validateCredentials_def split: sum.splits rest_outcome.splits if_splits)
  show "fst (binance_validateCredentials now b br) =
     Inr (fst (checkRateLimit ''validate'' 10 60000 now (rateLimiter br))
          \<and> (case b of Resolved r \<Rightarrow> ba_status r = 200 \<and> ba_canTrade r | Rejected e \<Rightarrow> False))"
    using validate_try_results(2) [of now b br]
    by (cases "binance_validate_try now b br")
       (auto simp: binance_validateCredentials_def split: sum.splits rest_outcome.splits if_splits)
  show "fst (bybit_validateCredentials now y br) =
     Inr (fst (checkRateLimit ''validate'' 10 60000 now (rateLimiter br))
          \<and> (case y of Resolved r \<Rightarrow> bi_retCode r = 0 | Rejected e \<Rightarrow> False))"
    using validate_try_results(3) [of now y br]
    by (cases "bybit_validate_try now y br")
       (auto simp: bybit_validateCredentials_def split: sum.splits rest_outcome.splits if_splits)
  show "fst (okx_validateCredentials now x br) =
     Inr (fst (checkRateLimit ''validate'' 10 60000 now (rateLimiter br))
          \<and> (case x of Resolved r \<Rightarrow> oc_code r = ''0'' | Rejected e \<Rightarrow> False))"
    using validate_try_results(4) [of now x br]
    by (cases "okx_validate_try now x br")
       (auto simp: okx_validateCredentials_def split: sum.splits rest_outcome.splits if_splits)
qed

lemmas connector_eval = rate_guard_def apiClient_def handleError_def new_Error_def
  new_broker_def connectWebSocket_def connect_with_def

text \<open>
  C1 as stated fails on the infrastructure failures it lists. A Delta call that times out,
  a Bybit call answered 503 and a Binance-Futures call denied by the local limiter (ten
  calls already counted in the window) all return \<^verbatim>\<open>false\<close>; none of them throws.
\<close>

theorem validateCredentials_swallows_counterexample:
  "fst (delta_validateCredentials 0
          (Rejected \<lparr>response_status = None, code = Some ''ETIMEDOUT'', message = ''timeout''\<rparr>)
          (new_broker \<lparr>apiKey = ''key'', apiSecret = ''secret'', passphrase = None,
                       sandbox = None\<rparr>)) = Inr False
   \<and> fst (bybit_validateCredentials 0
          (Rejected \<lparr>response_status = Some 503, code = None, message = ''unavailable''\<rparr>)
          (new_broker \<lparr>apiKey = ''key'', apiSecret = ''secret'', passphrase = None,
                       sandbox = None\<rparr>)) = Inr False
   \<and> fst (binance_validateCredentials 0
          (Resolved \<lparr>ba_status = 200, ba_canTrade = True\<rparr>)
          \<lparr>credentials = \<lparr>apiKey = ''key'', apiSecret = ''secret'', passphrase = None,
                           sandbox = None\<rparr>,
           isConnected = False, rateLimiter = [(''validate_0'', 10)], wsClient = None\<rparr>)
       = Inr False"
  by (simp add: delta_validateCredentials_def delta_validate_try_def
      bybit_validateCredentials_def bybit_validate_try_def
      binance_validateCredentials_def binance_validate_try_def connector_eval rate_eval)

lemma validate_never_Inl:
  "fst (delta_validateCredentials now d br) \<noteq> Inl e"
  "fst (binance_validateCredentials now b br) \<noteq> Inl e"
  "fst (bybit_validateCredentials now y br) \<noteq> Inl e"
  "fst (okx_validateCredentials now x br) \<noteq> Inl e"
  by (auto simp: delta_validateCredentials_def binance_validateCredentials_def
      bybit_validateCredentials_def okx_validateCredentials_def split: prod.splits sum.splits)

lemma connect_with_open:
  assumes "\<And>e. fst (validate br) \<noteq> Inl e"
  shows "fst (connect_with validate WsOpen br) = Inr ()
       \<and> isConnected (snd (connect_with validate WsOpen br))"
  using assms
  by (cases "validate br") (auto simp: connect_with_def connectWebSocket_def split: sum.splits)

lemma connect_open_connected:
  "fst (delta_connect now d WsOpen br) = Inr () \<and> isConnected (snd (delta_connect now d WsOpen br))"
  "fst (binance_connect now b WsOpen br) = Inr () \<and> isConnected (snd (binance_connect now b WsOpen br))"
  "fst (bybit_connect now y WsOpen br) = Inr () \<and> isConnected (snd (bybit_connect now y WsOpen br))"
  "fst (okx_connect now x WsOpen br) = Inr () \<and> isConnected (snd (okx_connect now x WsOpen br))"
  unfolding delta_connect_def binance_connect_def bybit_connect_def okx_connect_def
  by (rule connect_with_open, rule validate_never_Inl)+

text \<open>
  C2 against the code. The exchange answers the validation call of a new Delta connector
  with 401, so the credentials are invalid and \<^verbatim>\<open>validateCredentials\<close> returns \<^verbatim>\<open>false\<close>;
  the public market-data socket opens. \<^verbatim>\<open>connect\<close> does not read the boolean: it completes
  without an error and leaves \<^verbatim>\<open>isConnected = true\<close>. The claim asks for a classified error
  and a disconnected connector.
\<close>

theorem delta_connect_invalid_credentials:
  "fst (delta_validateCredentials 0
          (Rejected \<lparr>response_status = Some 401, code = None, message = ''Unauthorized''\<rparr>)
          (new_broker \<lparr>apiKey = ''key'', apiSecret = ''wrong'', passphrase = None,
                       sandbox = None\<rparr>)) = Inr False
   \<and> delta_connect 0
        (Rejected \<lparr>response_status = Some 401, code = None, message = ''Unauthorized''\<rparr>)
        WsOpen
        (new_broker \<lparr>apiKey = ''key'', apiSecret = ''wrong'', passphrase = None,
                     sandbox = None\<rparr>)
     = (Inr (),
        \<lparr>credentials = \<lparr>apiKey = ''key'', apiSecret = ''wrong'', passphrase = None,
                         sandbox = None\<rparr>,
         isConnected = True, rateLimiter = [(''validate_0'', 1)], wsClient = Some OPEN\<rparr>)"
  by (simp add: delta_connect_def delta_validateCredentials_def delta_validate_try_def
      connector_eval rate_eval)

subsection \<open>Binary64 rounding\<close>

lemmas round_eval = js_round_def round64_def quantum_def binade_def round_half_even_def
  pow2_def compute_bitlen

lemma pow2_powr: "pow2 e = 2 powr (real_of_int e)"
proof (cases "0 \<le> e")
  case True
  then show ?thesis by (simp add: pow2_def powr_realpow [symmetric])
next
  case False
  then have e: "real_of_int e = - real (nat (- e))" by simp
  have "2 powr (real_of_int e) = 1 / 2 ^ nat (- e)"
    unfolding e by (simp add: powr_minus_divide powr_realpow)
  then show ?thesis using False by (simp add: pow2_def)
qed

lemma pow2_pos: "0 < pow2 e" by (simp add: pow2_powr)

lemma pow2_mono: "a \<le> b \<Longrightarrow> pow2 a \<le> pow2 b"
  by (simp add: pow2_powr)

lemma pow2_less_cancel: "pow2 a < pow2 b \<Longrightarrow> a < b"
  by (simp add: pow2_powr)

lemma pow2_half: "pow2 e / 2 = pow2 (e - 1)"
  by (simp add: pow2_powr powr_diff)

lemma pow2_neg: "0 \<le> k \<Longrightarrow> pow2 (- k) = 1 / 2 ^ nat k"
  by (cases "k = 0") (simp_all add: pow2_def)

lemma bitlen_ge1: "0 < m \<Longrightarrow> 1 \<le> bitlen m"
  using bitlen_eq_zero_iff [of m] bitlen_nonneg [of m] by linarith

lemma binade_le:
  assumes "0 < x"
  shows "pow2 (binade x) \<le> x"
proof (cases "1 \<le> x")
  case True
  let ?n = "\<lfloor>x\<rfloor>"
  have n: "0 < ?n" using True by simp
  have "2 ^ nat (bitlen ?n - 1) \<le> ?n" using bitlen_bounds [OF n] by simp
  then have "real_of_int (2 ^ nat (bitlen ?n - 1)) \<le> x" by (simp only: le_floor_iff)
  then have "(2::real) ^ nat (bitlen ?n - 1) \<le> x" by simp
  moreover have "0 \<le> bitlen ?n - 1" using bitlen_ge1 [OF n] by simp
  ultimately show ?thesis using True by (simp add: binade_def pow2_def)
next
  case False
  let ?m = "\<lfloor>1 / x\<rfloor>"
  let ?k = "bitlen ?m - 1"
  have y: "1 < 1 / x" using False assms by simp
  have m: "0 < ?m" using y by simp
  have k: "0 \<le> ?k" using bitlen_ge1 [OF m] by simp
  show ?thesis
  proof (cases "x * 2 ^ nat ?k = 1")
    case True
    then have "x = 1 / 2 ^ nat ?k" by (simp add: field_simps)
    then have "pow2 (- ?k) = x" using pow2_neg [OF k] by simp
    then show ?thesis using \<open>\<not> 1 \<le> x\<close> True by (simp add: binade_def Let_def)
  next
    case ne: False
    have "?m < 2 ^ nat (bitlen ?m)" using bitlen_bounds [OF m] by simp
    then have "1 / x < real_of_int (2 ^ nat (bitlen ?m))" by (simp only: floor_less_iff)
    then have "1 / x \<le> 2 ^ nat (bitlen ?m)" by simp
    then have "1 / 2 ^ nat (bitlen ?m) \<le> x" using assms by (simp add: field_simps)
    moreover have "pow2 (- bitlen ?m) = 1 / 2 ^ nat (bitlen ?m)"
      by (intro pow2_neg bitlen_nonneg)
    moreover have "- ?k - 1 = - bitlen ?m" by simp
    ultimately have "pow2 (- ?k - 1) \<le> x" by (simp only:)
    then show ?thesis using \<open>\<not> 1 \<le> x\<close> ne by (simp add: binade_def Let_def)
  qed
qed

lemma round_half_even_error: "\<bar>of_int (round_half_even y) - y\<bar> \<le> 1 / 2"
  unfolding round_half_even_def Let_def by (auto; linarith)

lemma round64_error: "\<bar>round64 x - x\<bar> \<le> quantum x / 2"
proof (cases "x = 0")
  case True
  then show ?thesis by (simp add: round64_def quantum_def less_imp_le [OF pow2_pos])
next
  case False
  let ?q = "quantum x"
  have q: "0 < ?q" by (simp add: quantum_def pow2_pos)
  have "round64 x - x = ?q * (of_int (round_half_even (x / ?q)) - x / ?q)"
    using False q by (simp add: round64_def algebra_simps)
  then have "\<bar>round64 x - x\<bar> = ?q * \<bar>of_int (round_half_even (x / ?q)) - x / ?q\<bar>"
    using q by (simp add: abs_mult)
  also have "\<dots> \<le> ?q * (1 / 2)"
    using q round_half_even_error [of "x / ?q"] by (intro mult_left_mono) auto
  finally show ?thesis by simp
qed

lemma quantum_le:
  assumes "\<bar>x\<bar> < pow2 E" "- 1021 \<le> E" "x \<noteq> 0"
  shows "quantum x \<le> pow2 (E - 53)"
proof -
  have "pow2 (binade \<bar>x\<bar>) \<le> \<bar>x\<bar>" using assms(3) by (intro binade_le) simp
  then have "pow2 (binade \<bar>x\<bar>) < pow2 E" using assms(1) by simp
  then have "binade \<bar>x\<bar> < E" by (rule pow2_less_cancel)
  then have "max (binade \<bar>x\<bar>) (- 1022) - 52 \<le> E - 53" using assms(2) by simp
  then show ?thesis unfolding quantum_def by (rule pow2_mono)
qed

lemma round64_close:
  assumes "\<bar>x\<bar> < pow2 E" "- 1021 \<le> E"
  shows "\<bar>round64 x - x\<bar> \<le> pow2 (E - 54)"
proof (cases "x = 0")
  case True
  then show ?thesis by (simp add: round64_def less_imp_le [OF pow2_pos])
next
  case False
  have "\<bar>round64 x - x\<bar> \<le> quantum x / 2" by (rule round64_error)
  also have "\<dots> \<le> pow2 (E - 53) / 2" using quantum_le [OF assms False] by simp
  also have "\<dots> = pow2 (E - 54)" by (simp add: pow2_half)
  finally show ?thesis .
qed

lemma round_small:
  assumes "\<bar>x\<bar> < 2 ^ 26"
  shows "js_round x = Finite (round64 x)" and "\<bar>round64 x - x\<bar> \<le> 1 / 2 ^ 28"
proof -
  have "\<bar>x\<bar> < pow2 26" using assms by (simp add: pow2_def)
  then have "\<bar>round64 x - x\<bar> \<le> pow2 (26 - 54)" by (rule round64_close) simp
  then show close: "\<bar>round64 x - x\<bar> \<le> 1 / 2 ^ 28" by (simp add: pow2_def)
  have "\<bar>round64 x\<bar> \<le> \<bar>x\<bar> + 1 / 2 ^ 28" using close by linarith
  then have "\<bar>round64 x\<bar> < 2 ^ 27" using assms by simp
  moreover have "(2::real) ^ 27 < 2 ^ 1024" by simp
  ultimately have "\<not> 2 ^ 1024 \<le> \<bar>round64 x\<bar>" by linarith
  then show "js_round x = Finite (round64 x)" by (simp add: js_round_def Let_def)
qed

subsection \<open>Account balances\<close>

lemma computed_rowI:
  assumes "js_positive t"
  shows "computed_row \<lparr>asset = a, free = f, locked = js_sub t f, total = t\<rparr>"
proof -
  have "balance_invariant \<lparr>asset = a, free = Finite x, locked = js_sub (Finite y) (Finite x),
          total = Finite y\<rparr>"
    if small: "\<bar>x\<bar> < 2 ^ 25" "y < 2 ^ 25" and pos: "0 < y" for x y
  proof -
    let ?d = "round64 (y - x)"
    let ?s = "round64 (x + ?d)"
    have "\<bar>y - x\<bar> < 2 ^ 26" using small pos by simp
    from round_small [OF this]
    have d: "js_round (y - x) = Finite ?d" and dc: "\<bar>?d - (y - x)\<bar> \<le> 1 / 2 ^ 28"
      by simp_all
    have "\<bar>x + ?d\<bar> \<le> y + 1 / 2 ^ 28" using dc pos by linarith
    then have "\<bar>x + ?d\<bar> < 2 ^ 26" using small by simp
    from round_small [OF this]
    have s: "js_round (x + ?d) = Finite ?s" and sc: "\<bar>?s - (x + ?d)\<bar> \<le> 1 / 2 ^ 28"
      by simp_all
    have "\<bar>y - ?s\<bar> \<le> 1 / 2 ^ 28 + 1 / 2 ^ 28" using dc sc by linarith
    then have "\<bar>y - ?s\<bar> \<le> 1 / 10 ^ 8" by simp
    then show ?thesis
      using pos by (simp add: balance_invariant_def within_tolerance_def js_sub_def d s)
  qed
  moreover have "t \<noteq> Finite 0" using assms by auto
  ultimately show ?thesis using assms by (auto simp: computed_row_def)
qed

lemma binance_rows:
  assumes "fst (binance_getAccountBalance now out br) = Inr rows" "r \<in> set rows"
  shows "computed_row r"
proof -
  obtain response where "out = Resolved response"
    and rows: "rows = map binance_balance_row
                 (filter (\<lambda>balance. js_positive (bb_balance balance)) response)"
    using assms(1)
    by (cases out)
       (auto simp: binance_getAccountBalance_def apiClient_def split: prod.splits sum.splits)
  then show ?thesis
    using assms(2) by (auto simp: binance_balance_row_def intro: computed_rowI)
qed

lemma bybit_rows:
  assumes "fst (bybit_getAccountBalance now out br) = Inr rows" "r \<in> set rows"
  shows "computed_row r"
proof -
  obtain response where "out = Resolved response"
    and rows: "rows = concat (map (\<lambda>account. map bybit_balance_row
                 (filter (\<lambda>coin. js_positive (bc_walletBalance coin)) account))
                 (bw_list response))"
    using assms(1)
    by (cases out)
       (auto simp: bybit_getAccountBalance_def apiClient_def
             split: prod.splits sum.splits if_splits)
  then show ?thesis
    using assms(2) by (auto simp: bybit_balance_row_def intro: computed_rowI)
qed

lemma okx_rows:
  assumes "fst (okx_getAccountBalance now out br) = Inr rows" "r \<in> set rows"
  shows "computed_row r"
proof -
  obtain response where "out = Resolved response"
    and rows: "rows = concat (map (\<lambda>account. map okx_balance_row
                 (filter (\<lambda>detail. js_positive (od_bal detail)) account))
                 (ob_data response))"
    using assms(1)
    by (cases out)
       (auto simp: okx_getAccountBalance_def apiClient_def
             split: prod.splits sum.splits if_splits)
  then show ?thesis
    using assms(2) by (auto simp: okx_balance_row_def intro: computed_rowI)
qed

lemma delta_rows:
  assumes "fst (delta_getAccountBalance now out br) = Inr rows" "r \<in> set rows"
  shows "\<exists>response balance. out = Resolved response \<and> balance \<in> set (db_result response)
           \<and> r = \<lparr>asset = asset_symbol balance, free = available_balance balance,
                    locked = order_margin balance, total = wallet_balance balance\<rparr>"
proof -
  obtain response where "out = Resolved response"
    and rows: "rows = map delta_balance_row (db_result response)"
    using assms(1)
    by (cases out)
       (auto simp: delta_getAccountBalance_def apiClient_def
             split: prod.splits sum.splits if_splits)
  then show ?thesis
    using assms(2) by (auto simp: delta_balance_row_def)
qed

text \<open>
  C3 (as amended). Every row that \<^verbatim>\<open>getAccountBalance\<close> of Binance-Futures, Bybit or OKX
  returns has \<^verbatim>\<open>total > 0\<close>, so a row whose total is zero is never returned, and its
  \<^verbatim>\<open>locked\<close> is the binary64 difference \<^verbatim>\<open>total - free\<close>; when \<^verbatim>\<open>free\<close> and \<^verbatim>\<open>total\<close> are
  finite and below \<^verbatim>\<open>2^25\<close> in magnitude, \<^verbatim>\<open>total\<close> is within \<^verbatim>\<open>1e-8\<close> of \<^verbatim>\<open>free + locked\<close>.
  Every row that Delta returns carries the \<^verbatim>\<open>available_balance\<close>, \<^verbatim>\<open>order_margin\<close> and
  \<^verbatim>\<open>wallet_balance\<close> of a row of the response as \<^verbatim>\<open>free\<close>, \<^verbatim>\<open>locked\<close> and \<^verbatim>\<open>total\<close>.
\<close>

theorem getAccountBalance_computed_rows:
  "((fst (binance_getAccountBalance now b br) = Inr rows
       \<or> fst (bybit_getAccountBalance now y br) = Inr rows
       \<or> fst (okx_getAccountBalance now x br) = Inr rows) \<and> r \<in> set rows
      \<longrightarrow> js_positive (total r) \<and> total r \<noteq> Finite 0
          \<and> locked r = js_sub (total r) (free r)
          \<and> (\<forall>f t. free r = Finite f \<and> total r = Finite t \<and> \<bar>f\<bar> < 2 ^ 25 \<and> t < 2 ^ 25
                 \<longrightarrow> balance_invariant r))
   \<and> (fst (delta_getAccountBalance now d br) = Inr rows \<and> r \<in> set rows
      \<longrightarrow> (\<exists>response balance. d = Resolved response \<and> balance \<in> set (db_result response)
             \<and> r = \<lparr>asset = asset_symbol balance, free = available_balance balance,
                      locked = order_margin balance, total = wallet_balance balance\<rparr>))"
proof (rule conjI)
  show "(fst (binance_getAccountBalance now b br) = Inr rows
       \<or> fst (bybit_getAccountBalance now y br) = Inr rows
       \<or> fst (okx_getAccountBalance now x br) = Inr rows) \<and> r \<in> set rows
      \<longrightarrow> js_positive (total r) \<and> total r \<noteq> Finite 0
          \<and> locked r = js_sub (total r) (free r)
          \<and> (\<forall>f t. free r = Finite f \<and> total r = Finite t \<and> \<bar>f\<bar> < 2 ^ 25 \<and> t < 2 ^ 25
                 \<longrightarrow> balance_invariant r)"
  proof
    assume "(fst (binance_getAccountBalance now b br) = Inr rows
       \<or> fst (bybit_getAccountBalance now y br) = Inr rows
       \<or> fst (okx_getAccountBalance now x br) = Inr rows) \<and> r \<in> set rows"
    then have "computed_row r"
      using binance_rows bybit_rows okx_rows by blast
    then show "js_positive (total r) \<and> total r \<noteq> Finite 0
          \<and> locked r = js_sub (total r) (free r)
          \<and> (\<forall>f t. free r = Finite f \<and> total r = Finite t \<and> \<bar>f\<bar> < 2 ^ 25 \<and> t < 2 ^ 25
                 \<longrightarrow> balance_invariant r)"
      by (simp add: computed_row_def)
  qed
  show "fst (delta_getAccountBalance now d br) = Inr rows \<and> r \<in> set rows
      \<longrightarrow> (\<exists>response balance. d = Resolved response \<and> balance \<in> set (db_result response)
             \<and> r = \<lparr>asset = asset_symbol balance, free = available_balance balance,
                      locked = order_margin balance, total = wallet_balance balance\<rparr>)"
    using delta_rows by blast
qed

theorem getAccountBalance_computed_rows_witness:
  "fst (binance_getAccountBalance 0
          (Resolved [\<lparr>bb_asset = ''BNB'', bb_balance = Finite 0, bb_availableBalance = Finite 0\<rparr>,
                     \<lparr>bb_asset = ''USDT'', bb_balance = Finite 10, bb_availableBalance = Finite 4\<rparr>])
          (new_broker \<lparr>apiKey = ''key'', apiSecret = ''secret'', passphrase = None,
                       sandbox = None\<rparr>))
     = Inr [\<lparr>asset = ''USDT'', free = Finite 4, locked = Finite 6, total = Finite 10\<rparr>]
   \<and> balance_invariant \<lparr>asset = ''USDT'', free = Finite 4, locked = Finite 6, total = Finite 10\<rparr>"
proof -
  let ?r = "\<lparr>asset = ''USDT'', free = Finite 4, locked = Finite 6, total = Finite 10\<rparr>"
  have sub: "js_sub (Finite 10) (Finite 4) = Finite 6"
    by (simp add: js_sub_def round_eval)
  have run: "fst (binance_getAccountBalance 0
          (Resolved [\<lparr>bb_asset = ''BNB'', bb_balance = Finite 0, bb_availableBalance = Finite 0\<rparr>,
                     \<lparr>bb_asset = ''USDT'', bb_balance = Finite 10, bb_availableBalance = Finite 4\<rparr>])
          (new_broker \<lparr>apiKey = ''key'', apiSecret = ''secret'', passphrase = None,
                       sandbox = None\<rparr>)) = Inr [?r]"
    by (simp add: binance_getAccountBalance_def binance_balance_row_def sub
        connector_eval rate_eval)
  have mem: "?r \<in> set [?r]" by simp
  have small: "free ?r = Finite 4 \<and> total ?r = Finite 10 \<and> \<bar>4::real\<bar> < 2 ^ 25
                 \<and> (10::real) < 2 ^ 25"
    by simp
  from getAccountBalance_computed_rows [of 0 _ _ "[?r]" _ _ ?r, THEN conjunct1] run mem small
  have "balance_invariant ?r" by blast
  with run show ?thesis by (rule conjI)
qed

text \<open>
  C3 as stated, for every exchange, fails in two ways. Delta passes its rows through
  without a filter and with the exchange's own \<^verbatim>\<open>order_margin\<close> as \<^verbatim>\<open>locked\<close>: a wallet with a
  zero BTC row and a USDT row of balance 10, available 3 and order margin 2 is returned
  whole, the first row with \<^verbatim>\<open>total = 0\<close>, the second with \<^verbatim>\<open>free + locked = 5\<close>. And for the
  connectors that compute \<^verbatim>\<open>locked\<close> the rounding can exceed the tolerance: Binance-Futures
  with \<^verbatim>\<open>balance = "263301824.98"\<close> and \<^verbatim>\<open>availableBalance = "58574704.36"\<close> (below: the
  binary64 values of the two strings) returns a row whose \<^verbatim>\<open>free + locked\<close> is
  \<^verbatim>\<open>263301824.98000002\<close>, which is \<^verbatim>\<open>2^-25\<close>, about \<^verbatim>\<open>2.98e-8\<close>, above \<^verbatim>\<open>total\<close>.
\<close>

theorem delta_getAccountBalance_counterexample:
  "fst (delta_getAccountBalance 0
     (Resolved \<lparr>db_success = True, db_result =
        [\<lparr>asset_symbol = ''BTC'', available_balance = Finite 0, order_margin = Finite 0,
          wallet_balance = Finite 0\<rparr>,
         \<lparr>asset_symbol = ''USDT'', available_balance = Finite 3, order_margin = Finite 2,
          wallet_balance = Finite 10\<rparr>]\<rparr>)
     (new_broker \<lparr>apiKey = ''key'', apiSecret = ''secret'', passphrase = None,
                  sandbox = None\<rparr>))
   = Inr [\<lparr>asset = ''BTC'', free = Finite 0, locked = Finite 0, total = Finite 0\<rparr>,
          \<lparr>asset = ''USDT'', free = Finite 3, locked = Finite 2, total = Finite 10\<rparr>]
   \<and> \<not> balance_invariant \<lparr>asset = ''BTC'', free = Finite 0, locked = Finite 0, total = Finite 0\<rparr>
   \<and> \<not> balance_invariant
         \<lparr>asset = ''USDT'', free = Finite 3, locked = Finite 2, total = Finite 10\<rparr>
   \<and> fst (binance_getAccountBalance 0
          (Resolved [\<lparr>bb_asset = ''USDT'',
                      bb_balance = Finite (8834943181767311 / 2 ^ 25),
                      bb_availableBalance = Finite (3930881868735447 / 2 ^ 26)\<rparr>])
          (new_broker \<lparr>apiKey = ''key'', apiSecret = ''secret'', passphrase = None,
                       sandbox = None\<rparr>))
     = Inr [\<lparr>asset = ''USDT'', free = Finite (3930881868735447 / 2 ^ 26),
             locked = Finite (1717375561849897 / 2 ^ 23),
             total = Finite (8834943181767311 / 2 ^ 25)\<rparr>]
   \<and> js_add (Finite (3930881868735447 / 2 ^ 26)) (Finite (1717375561849897 / 2 ^ 23))
     = Finite (8834943181767312 / 2 ^ 25)
   \<and> \<not> balance_invariant
         \<lparr>asset = ''USDT'', free = Finite (3930881868735447 / 2 ^ 26),
          locked = Finite (1717375561849897 / 2 ^ 23),
          total = Finite (8834943181767311 / 2 ^ 25)\<rparr>"
proof -
  have sub: "js_sub (Finite (8834943181767311 / 2 ^ 25)) (Finite (3930881868735447 / 2 ^ 26))
               = Finite (1717375561849897 / 2 ^ 23)"
    by (simp add: js_sub_def round_eval)
  have add: "js_add (Finite (3930881868735447 / 2 ^ 26)) (Finite (1717375561849897 / 2 ^ 23))
               = Finite (8834943181767312 / 2 ^ 25)"
    by (simp add: round_eval)
  have delta: "fst (delta_getAccountBalance 0
     (Resolved \<lparr>db_success = True, db_result =
        [\<lparr>asset_symbol = ''BTC'', available_balance = Finite 0, order_margin = Finite 0,
          wallet_balance = Finite 0\<rparr>,
         \<lparr>asset_symbol = ''USDT'', available_balance = Finite 3, order_margin = Finite 2,
          wallet_balance = Finite 10\<rparr>]\<rparr>)
     (new_broker \<lparr>apiKey = ''key'', apiSecret = ''secret'', passphrase = None,
                  sandbox = None\<rparr>))
   = Inr [\<lparr>asset = ''BTC'', free = Finite 0, locked = Finite 0, total = Finite 0\<rparr>,
          \<lparr>asset = ''USDT'', free = Finite 3, locked = Finite 2, total = Finite 10\<rparr>]"
    by (simp add: delta_getAccountBalance_def delta_balance_row_def connector_eval rate_eval)
  have zero: "\<not> balance_invariant
      \<lparr>asset = ''BTC'', free = Finite 0, locked = Finite 0, total = Finite 0\<rparr>"
    by (simp add: balance_invariant_def)
  have off: "\<not> balance_invariant
      \<lparr>asset = ''USDT'', free = Finite 3, locked = Finite 2, total = Finite 10\<rparr>"
    by (simp add: balance_invariant_def within_tolerance_def round_eval)
  have binance: "fst (binance_getAccountBalance 0
          (Resolved [\<lparr>bb_asset = ''USDT'',
                      bb_balance = Finite (8834943181767311 / 2 ^ 25),
                      bb_availableBalance = Finite (3930881868735447 / 2 ^ 26)\<rparr>])
          (new_broker \<lparr>apiKey = ''key'', apiSecret = ''secret'', passphrase = None,
                       sandbox = None\<rparr>))
     = Inr [\<lparr>asset = ''USDT'', free = Finite (3930881868735447 / 2 ^ 26),
             locked = Finite (1717375561849897 / 2 ^ 23),
             total = Finite (8834943181767311 / 2 ^ 25)\<rparr>]"
    by (simp add: binance_getAccountBalance_def binance_balance_row_def js_sub_def round_eval
        connector_eval rate_eval)
  have rounded: "\<not> balance_invariant
         \<lparr>asset = ''USDT'', free = Finite (3930881868735447 / 2 ^ 26),
          locked = Finite (1717375561849897 / 2 ^ 23),
          total = Finite (8834943181767311 / 2 ^ 25)\<rparr>"
    by (simp add: balance_invariant_def within_tolerance_def round_eval)
  show ?thesis using delta zero off binance add rounded by (intro conjI)
qed

subsection \<open>Bybit positions\<close>

lemma js_div_zero: "\<not> is_finite (js_div a (Finite 0))"
  by (cases a) (simp_all add: signed_infinity_def)

lemma js_mul_not_finite: "\<not> is_finite a \<Longrightarrow> \<not> is_finite (js_mul a (Finite 100))"
  by (cases a) (simp_all add: signed_infinity_def)

lemma bybit_getPositions_rows:
  assumes "fst (bybit_getPositions now out br) = Inr ps"
  shows "\<exists>response. out = Resolved response
           \<and> ps = map bybit_position_row
                    (filter (\<lambda>pos. js_nonzero (bp_size pos)) (bps_list response))"
  using assms
  by (cases out)
     (auto simp: bybit_getPositions_def apiClient_def split: prod.splits sum.splits if_splits)

text \<open>
  C9. Every position Bybit's \<^verbatim>\<open>getPositions\<close> returns comes from a row of non-zero size,
  with the percentage \<^verbatim>\<open>unrealisedPnl / positionValue * 100\<close> and no guard on the divisor:
  a row of non-zero size with \<^verbatim>\<open>positionValue = 0\<close> is returned, and its percentage is the
  result of a division by zero, an infinity or \<^verbatim>\<open>NaN\<close>.
\<close>

theorem bybit_percentage_unguarded:
  assumes "fst (bybit_getPositions now (Resolved response) br) = Inr ps"
    and "row \<in> set (bps_list response)" and "js_nonzero (bp_size row)"
  shows "bybit_position_row row \<in> set ps
       \<and> percentage (bybit_position_row row)
           = js_mul (js_div (bp_unrealisedPnl row) (bp_positionValue row)) (Finite 100)
       \<and> (bp_positionValue row = Finite 0
            \<longrightarrow> percentage (bybit_position_row row)
                  = js_mul (js_div (bp_unrealisedPnl row) (Finite 0)) (Finite 100)
                \<and> \<not> is_finite (percentage (bybit_position_row row)))"
proof -
  from bybit_getPositions_rows [OF assms(1)]
  have "ps = map bybit_position_row
               (filter (\<lambda>pos. js_nonzero (bp_size pos)) (bps_list response))"
    by simp
  then have "bybit_position_row row \<in> set ps"
    using assms(2,3) by simp
  moreover have "percentage (bybit_position_row row)
           = js_mul (js_div (bp_unrealisedPnl row) (bp_positionValue row)) (Finite 100)"
    by (simp add: bybit_position_row_def)
  ultimately show ?thesis
    using js_mul_not_finite [OF js_div_zero, of "bp_unrealisedPnl row"] by simp
qed

theorem bybit_percentage_unguarded_witness:
  "fst (bybit_getPositions 0
     (Resolved \<lparr>bps_retCode = 0, bps_list =
        [\<lparr>bp_symbol = ''BTCUSDT'', bp_side = ''Buy'', bp_size = Finite 1,
          bp_avgPrice = Finite 50000, bp_markPrice = Finite 50010,
          bp_unrealisedPnl = Finite 10, bp_positionValue = Finite 0\<rparr>]\<rparr>)
     (new_broker \<lparr>apiKey = ''key'', apiSecret = ''secret'', passphrase = None,
                  sandbox = None\<rparr>))
   = Inr [\<lparr>symbol = ''BTCUSDT'', side = ''buy'', position_size = Finite 1, entryPrice = Finite 50000,
           markPrice = Finite 50010, pnl = Finite 10, percentage = PlusInfinity\<rparr>]
   \<and> \<not> is_finite (percentage (bybit_position_row
         \<lparr>bp_symbol = ''BTCUSDT'', bp_side = ''Buy'', bp_size = Finite 1,
          bp_avgPrice = Finite 50000, bp_markPrice = Finite 50010,
          bp_unrealisedPnl = Finite 10, bp_positionValue = Finite 0\<rparr>))"
proof -
  let ?row = "\<lparr>bp_symbol = ''BTCUSDT'', bp_side = ''Buy'', bp_size = Finite 1,
          bp_avgPrice = Finite 50000, bp_markPrice = Finite 50010,
          bp_unrealisedPnl = Finite 10, bp_positionValue = Finite 0\<rparr>"
  let ?resp = "\<lparr>bps_retCode = 0, bps_list = [?row]\<rparr>"
  let ?br = "new_broker \<lparr>apiKey = ''key'', apiSecret = ''secret'', passphrase = None,
                  sandbox = None\<rparr>"
  let ?ps = "[\<lparr>symbol = ''BTCUSDT'', side = ''buy'', position_size = Finite 1, entryPrice = Finite 50000,
           markPrice = Finite 50010, pnl = Finite 10, percentage = PlusInfinity\<rparr>]"
  have run: "fst (bybit_getPositions 0 (Resolved ?resp) ?br) = Inr ?ps"
    by (simp add: bybit_getPositions_def bybit_position_row_def toLowerCase_def toLowerChar_def
        signed_infinity_def connector_eval rate_eval)
  have mem: "?row \<in> set (bps_list ?resp)" by simp
  have nz: "js_nonzero (bp_size ?row)" by simp
  have z: "bp_positionValue ?row = Finite 0" by simp
  from bybit_percentage_unguarded [OF run mem nz] z
  have "\<not> is_finite (percentage (bybit_position_row ?row))" by blast
  with run show ?thesis by (rule conjI)
qed

subsection \<open>Placing an order\<close>

lemma delta_placeOrder_status:
  assumes "fst (delta_placeOrder order now products out br) = Inr res"
  shows "\<exists>response. out = Resolved response
           \<and> status res = delta_mapOrderStatus (do_state (dor_result response))"
  using assms
  by (cases out)
     (auto simp: delta_placeOrder_def apiClient_def Let_def
           split: prod.splits sum.splits if_splits)

lemma binance_placeOrder_status:
  assumes "fst (binance_placeOrder order now out br) = Inr res"
  shows "\<exists>response. out = Resolved response
           \<and> status res = binance_mapOrderStatus (bo_status response)"
  using assms
  by (cases out)
     (auto simp: binance_placeOrder_def apiClient_def split: prod.splits sum.splits if_splits)

lemma bybit_placeOrder_status:
  assumes "fst (bybit_placeOrder order now out br) = Inr res"
  shows "status res = pending"
  using assms
  by (cases out)
     (auto simp: bybit_placeOrder_def apiClient_def split: prod.splits sum.splits if_splits)

lemma okx_placeOrder_status:
  assumes "fst (okx_placeOrder order now out br) = Inr res"
  shows "\<exists>response ack rest. out = Resolved response \<and> oo_data response = ack # rest
           \<and> status res = okx_mapOrderStatus (oa_sCode ack)"
  using assms
  by (cases out)
     (auto simp: okx_placeOrder_def apiClient_def
           split: prod.splits sum.splits if_splits list.splits)


lemma binance_placeOrder_returns:
  assumes "fst (checkRateLimit ''order'' 20 60000 now (rateLimiter br))"
  shows "\<exists>res. fst (binance_placeOrder order now (Resolved response) br) = Inr res
           \<and> status res = binance_mapOrderStatus (bo_status response)"
  using assms
  by (simp add: binance_placeOrder_def rate_guard_def apiClient_def split_beta)

text \<open>
  C4 (as amended). Whenever \<^verbatim>\<open>placeOrder\<close> returns a result, its status is: for Delta,
  \<^verbatim>\<open>mapOrderStatus\<close> of the \<^verbatim>\<open>state\<close> of the order in the response; for Binance-Futures,
  \<^verbatim>\<open>mapOrderStatus\<close> of the \<^verbatim>\<open>status\<close> of the response; for OKX, \<^verbatim>\<open>mapOrderStatus\<close> of the
  \<^verbatim>\<open>sCode\<close> of the first acknowledgment; for Bybit, always pending, whatever the response
  carries. A Binance-Futures call that the rate limit admits and the exchange answers does
  return a result, so a response with the native status \<^verbatim>\<open>NEW\<close> gives pending.
\<close>

theorem placeOrder_status:
  "(fst (delta_placeOrder order now products d br) = Inr res \<longrightarrow>
      (\<exists>response. d = Resolved response
         \<and> status res = delta_mapOrderStatus (do_state (dor_result response))))
   \<and> (fst (binance_placeOrder order now b br) = Inr res \<longrightarrow>
      (\<exists>response. b = Resolved response
         \<and> status res = binance_mapOrderStatus (bo_status response)))
   \<and> (fst (checkRateLimit ''order'' 20 60000 now (rateLimiter br)) \<longrightarrow>
      (\<exists>res'. fst (binance_placeOrder order now (Resolved ack) br) = Inr res'
         \<and> status res' = binance_mapOrderStatus (bo_status ack)))
   \<and> (fst (bybit_placeOrder order now y br) = Inr res \<longrightarrow> status res = pending)
   \<and> (fst (okx_placeOrder order now x br) = Inr res \<longrightarrow>
      (\<exists>response first rest. x = Resolved response \<and> oo_data response = first # rest
         \<and> status res = okx_mapOrderStatus (oa_sCode first)))"
  using delta_placeOrder_status [of order now products d br res]
    binance_placeOrder_status [of order now b br res]
    binance_placeOrder_returns [of now br order ack]
    bybit_placeOrder_status [of order now y br res]
    okx_placeOrder_status [of order now x br res]
  by blast

theorem placeOrder_status_witness:
  "fst (binance_placeOrder
          \<lparr>o_symbol = ''BTCUSDT'', o_side = buy, o_type = market_order, o_quantity = Finite 1,
           o_price = None, o_stopPrice = None, o_timeInForce = None\<rparr>
          1700000000000
          (Resolved \<lparr>bo_orderId = ''42'', bo_symbol = ''BTCUSDT'', bo_side = ''BUY'',
                     bo_origQty = Finite 1, bo_price = Finite 0, bo_status = ''NEW'',
                     bo_updateTime = 1700000000123\<rparr>)
          (new_broker \<lparr>apiKey = ''key'', apiSecret = ''secret'', passphrase = None,
                       sandbox = None\<rparr>))
     = Inr \<lparr>orderId = ''42'', r_symbol = ''BTCUSDT'', r_side = ''buy'', quantity = Finite 1,
            price = Finite 0, status = pending, timestamp = 1700000000123, fees = Finite 0\<rparr>
   \<and> binance_mapOrderStatus ''NEW'' = pending"
proof -
  let ?order = "\<lparr>o_symbol = ''BTCUSDT'', o_side = buy, o_type = market_order,
           o_quantity = Finite 1, o_price = None, o_stopPrice = None, o_timeInForce = None\<rparr>"
  let ?ack = "\<lparr>bo_orderId = ''42'', bo_symbol = ''BTCUSDT'', bo_side = ''BUY'',
                     bo_origQty = Finite 1, bo_price = Finite 0, bo_status = ''NEW'',
                     bo_updateTime = 1700000000123\<rparr>"
  let ?br = "new_broker \<lparr>apiKey = ''key'', apiSecret = ''secret'', passphrase = None,
                       sandbox = None\<rparr>"
  let ?res = "\<lparr>orderId = ''42'', r_symbol = ''BTCUSDT'', r_side = ''buy'', quantity = Finite 1,
            price = Finite 0, status = pending, timestamp = 1700000000123, fees = Finite 0\<rparr>"
  have run: "fst (binance_placeOrder ?order 1700000000000 (Resolved ?ack) ?br) = Inr ?res"
    by (simp add: binance_placeOrder_def binance_mapOrderStatus_def toLowerCase_def
        toLowerChar_def connector_eval rate_eval)
  from placeOrder_status [of ?order 1700000000000 _ _ ?br ?res "Resolved ?ack",
      THEN conjunct2, THEN conjunct1] run
  have "\<exists>response. Resolved ?ack = Resolved response
          \<and> status ?res = binance_mapOrderStatus (bo_status response)"
    by (rule mp)
  then have "binance_mapOrderStatus ''NEW'' = pending" by simp
  with run show ?thesis by (rule conjI)
qed

text \<open>
  C4 as stated fails for Bybit: an acknowledgment that carries the native status
  \<^verbatim>\<open>Filled\<close>, which the table maps to filled, still yields a pending result.
\<close>

theorem bybit_placeOrder_counterexample:
  "fst (bybit_placeOrder
          \<lparr>o_symbol = ''BTCUSDT'', o_side = buy, o_type = market_order, o_quantity = Finite 1,
           o_price = None, o_stopPrice = None, o_timeInForce = None\<rparr>
          1700000000000
          (Resolved \<lparr>yo_retCode = 0, yo_retMsg = ''OK'', yo_orderId = ''42'',
                     yo_orderStatus = Some ''Filled''\<rparr>)
          (new_broker \<lparr>apiKey = ''key'', apiSecret = ''secret'', passphrase = None,
                       sandbox = None\<rparr>))
     = Inr \<lparr>orderId = ''42'', r_symbol = ''BTCUSDT'', r_side = ''buy'', quantity = Finite 1,
            price = Finite 0, status = pending, timestamp = 1700000000000, fees = Finite 0\<rparr>
   \<and> bybit_mapOrderStatus ''Filled'' = filled"
  by (simp add: bybit_placeOrder_def bybit_mapOrderStatus_def price_or_zero_def
      connector_eval rate_eval)

subsection \<open>The registry\<close>

lemma registry_ok_empty: "registry_ok empty_factory"
  by (simp add: registry_ok_def empty_factory_def)

lemma createBroker_cases:
  assumes "createBroker t c i f = Inr (r, f')"
  shows "(map_of (instances f) (instance_key t c i) = Some r \<and> f' = f)
       \<or> (map_of (instances f) (instance_key t c i) = None \<and> r = next_ref f
          \<and> (\<exists>k. broker_class t = Some k
                \<and> f' = f\<lparr>instances := AList.update (instance_key t c i) r (instances f),
                         objects := (objects f)(r \<mapsto> \<lparr>kind = k, state = new_broker c\<rparr>),
                         next_ref := Suc r\<rparr>))"
  using assms by (auto simp: createBroker_def Let_def split: option.splits)

lemma createBroker_lookup:
  assumes "createBroker t c i f = Inr (r, f')"
  shows "map_of (instances f') (instance_key t c i) = Some r"
  using createBroker_cases [OF assms] by (auto simp: update_conv')

lemma createBroker_ok:
  assumes "registry_ok f" "createBroker t c i f = Inr (r, f')"
  shows "registry_ok f'"
  using createBroker_cases [OF assms(2)]
proof
  assume "map_of (instances f) (instance_key t c i) = Some r \<and> f' = f"
  then show ?thesis using assms(1) by simp
next
  assume new: "map_of (instances f) (instance_key t c i) = None \<and> r = next_ref f
          \<and> (\<exists>k. broker_class t = Some k
                \<and> f' = f\<lparr>instances := AList.update (instance_key t c i) r (instances f),
                         objects := (objects f)(r \<mapsto> \<lparr>kind = k, state = new_broker c\<rparr>),
                         next_ref := Suc r\<rparr>)"
  then have inst: "map_of (instances f') = (map_of (instances f))(instance_key t c i \<mapsto> r)"
    and nxt: "next_ref f' = Suc r" and r: "r = next_ref f"
    by (auto simp: update_conv')
  have below: "\<And>k x. map_of (instances f) k = Some x \<Longrightarrow> x < r"
    using assms(1) r by (simp add: registry_ok_def)
  have inj: "\<And>k1 k2 x. map_of (instances f) k1 = Some x \<Longrightarrow> map_of (instances f) k2 = Some x
                \<Longrightarrow> k1 = k2"
    using assms(1) unfolding registry_ok_def by blast
  show ?thesis
    unfolding registry_ok_def inst nxt
    using below inj by (auto simp: less_Suc_eq split: if_splits)
qed

lemma disconnectBroker_ok:
  assumes "registry_ok f"
  shows "registry_ok (disconnectBroker k f)"
  using assms
  by (auto simp: registry_ok_def disconnectBroker_def delete_conv' split: option.splits if_splits)

lemma disconnectAllBrokers_ok: "registry_ok (disconnectAllBrokers f)"
  by (simp add: registry_ok_def disconnectAllBrokers_def)

text \<open>
  C5. In a well-formed registry, two calls of \<^verbatim>\<open>createBroker\<close> in a row that both return
  give the same reference when they resolve to the same key (the second call changes
  nothing), in particular for the same exchange type, credentials and instance id, and
  different references when they resolve to different keys.
\<close>

theorem createBroker_idempotent:
  assumes "registry_ok f"
    and "createBroker t1 c1 i1 f = Inr (r1, f1)"
    and "createBroker t2 c2 i2 f1 = Inr (r2, f2)"
  shows "(instance_key t1 c1 i1 = instance_key t2 c2 i2 \<longrightarrow> r2 = r1 \<and> f2 = f1)
       \<and> (instance_key t1 c1 i1 \<noteq> instance_key t2 c2 i2 \<longrightarrow> r2 \<noteq> r1)
       \<and> createBroker t1 c1 i1 f1 = Inr (r1, f1)"
proof -
  have ok1: "registry_ok f1" using createBroker_ok [OF assms(1,2)] .
  have l1: "map_of (instances f1) (instance_key t1 c1 i1) = Some r1"
    using createBroker_lookup [OF assms(2)] .
  have again: "createBroker t1 c1 i1 f1 = Inr (r1, f1)"
    using l1 by (simp add: createBroker_def)
  have same: "r2 = r1 \<and> f2 = f1" if "instance_key t1 c1 i1 = instance_key t2 c2 i2"
    using createBroker_cases [OF assms(3)] l1 that by auto
  have diff: "r2 \<noteq> r1" if ne: "instance_key t1 c1 i1 \<noteq> instance_key t2 c2 i2"
    using createBroker_cases [OF assms(3)]
  proof
    assume "map_of (instances f1) (instance_key t2 c2 i2) = Some r2 \<and> f2 = f1"
    then show ?thesis using ok1 l1 ne unfolding registry_ok_def by blast
  next
    assume "map_of (instances f1) (instance_key t2 c2 i2) = None \<and> r2 = next_ref f1
          \<and> (\<exists>k. broker_class t2 = Some k
                \<and> f2 = f1\<lparr>instances := AList.update (instance_key t2 c2 i2) r2 (instances f1),
                         objects := (objects f1)(r2 \<mapsto> \<lparr>kind = k, state = new_broker c2\<rparr>),
                         next_ref := Suc r2\<rparr>)"
    then have "r2 = next_ref f1" by simp
    moreover have "r1 < next_ref f1" using ok1 l1 unfolding registry_ok_def by blast
    ultimately show ?thesis by simp
  qed
  show ?thesis using same diff again by blast
qed


theorem createBroker_idempotent_witness:
  "createBroker ''BYBIT''
       \<lparr>apiKey = ''ABCDEFGH1111'', apiSecret = ''s1'', passphrase = None, sandbox = None\<rparr>
       None empty_factory
     = Inr (0, \<lparr>instances = [(''BYBIT_ABCDEFGH'', 0)],
                objects = (\<lambda>r. None)(0 \<mapsto> \<lparr>kind = BYBIT, state = new_broker
                  \<lparr>apiKey = ''ABCDEFGH1111'', apiSecret = ''s1'', passphrase = None,
                   sandbox = None\<rparr>\<rparr>),
                next_ref = 1\<rparr>)
   \<and> (\<exists>f2. createBroker ''OKX''
       \<lparr>apiKey = ''ABCDEFGH1111'', apiSecret = ''s1'', passphrase = Some ''p'', sandbox = None\<rparr>
       None
       \<lparr>instances = [(''BYBIT_ABCDEFGH'', 0)],
        objects = (\<lambda>r. None)(0 \<mapsto> \<lparr>kind = BYBIT, state = new_broker
          \<lparr>apiKey = ''ABCDEFGH1111'', apiSecret = ''s1'', passphrase = None,
           sandbox = None\<rparr>\<rparr>),
        next_ref = 1\<rparr> = Inr (1, f2))
   \<and> createBroker ''BYBIT''
       \<lparr>apiKey = ''ABCDEFGH1111'', apiSecret = ''s1'', passphrase = None, sandbox = None\<rparr>
       None
       \<lparr>instances = [(''BYBIT_ABCDEFGH'', 0)],
        objects = (\<lambda>r. None)(0 \<mapsto> \<lparr>kind = BYBIT, state = new_broker
          \<lparr>apiKey = ''ABCDEFGH1111'', apiSecret = ''s1'', passphrase = None,
           sandbox = None\<rparr>\<rparr>),
        next_ref = 1\<rparr>
     = Inr (0, \<lparr>instances = [(''BYBIT_ABCDEFGH'', 0)],
                objects = (\<lambda>r. None)(0 \<mapsto> \<lparr>kind = BYBIT, state = new_broker
                  \<lparr>apiKey = ''ABCDEFGH1111'', apiSecret = ''s1'', passphrase = None,
                   sandbox = None\<rparr>\<rparr>),
                next_ref = 1\<rparr>)"
proof -
  let ?c = "\<lparr>apiKey = ''ABCDEFGH1111'', apiSecret = ''s1'', passphrase = None, sandbox = None\<rparr>"
  let ?c' = "\<lparr>apiKey = ''ABCDEFGH1111'', apiSecret = ''s1'', passphrase = Some ''p'',
              sandbox = None\<rparr>"
  let ?f1 = "\<lparr>instances = [(''BYBIT_ABCDEFGH'', 0)],
        objects = (\<lambda>r. None)(0 \<mapsto> \<lparr>kind = BYBIT, state = new_broker ?c\<rparr>),
        next_ref = 1\<rparr>"
  have ok: "registry_ok empty_factory" by (rule registry_ok_empty)
  have first: "createBroker ''BYBIT'' ?c None empty_factory = Inr (0, ?f1)"
    by (simp add: createBroker_def instance_key_def broker_class_def empty_factory_def)
  obtain f2 where second: "createBroker ''OKX'' ?c' None ?f1 = Inr (1, f2)"
    by (simp add: createBroker_def instance_key_def broker_class_def)
  from createBroker_idempotent [OF ok first second]
  have "createBroker ''BYBIT'' ?c None ?f1 = Inr (0, ?f1)" by blast
  with first second show ?thesis by blast
qed

text \<open>
  C10. With no instance id the key is the exchange type, an underscore and the first eight
  characters of the API key. When the registry has no instance under that key, a first
  call creates one bound to its credentials; a second call with the same exchange type and
  any credentials whose API key has the same first eight characters returns that same
  instance and leaves the registry as it is, so the second credentials (secret and
  passphrase included) are stored nowhere.
\<close>

theorem createBroker_prefix_collision:
  assumes "map_of (instances f) (t @ ''_'' @ take 8 (apiKey c1)) = None"
    and "take 8 (apiKey c1) = take 8 (apiKey c2)"
    and "createBroker t c1 None f = Inr (r, f1)"
  shows "instance_key t c2 None = t @ ''_'' @ take 8 (apiKey c2)
       \<and> createBroker t c2 None f1 = Inr (r, f1)
       \<and> (\<exists>obj. objects f1 r = Some obj \<and> credentials (state obj) = c1)"
proof -
  have key: "instance_key t c1 None = t @ ''_'' @ take 8 (apiKey c1)"
    "instance_key t c2 None = t @ ''_'' @ take 8 (apiKey c2)"
    by (simp_all add: instance_key_def)
  have same: "instance_key t c2 None = instance_key t c1 None"
    using assms(2) by (simp add: key)
  have "map_of (instances f1) (instance_key t c1 None) = Some r"
    using createBroker_lookup [OF assms(3)] .
  then have again: "createBroker t c2 None f1 = Inr (r, f1)"
    by (simp add: createBroker_def same)
  have "\<exists>obj. objects f1 r = Some obj \<and> credentials (state obj) = c1"
    using createBroker_cases [OF assms(3)] assms(1)
    by (auto simp: key new_broker_def)
  with again key(2) show ?thesis by blast
qed

theorem createBroker_prefix_collision_witness:
  "\<lparr>apiKey = ''ABCDEFGH1111'', apiSecret = ''s1'', passphrase = None, sandbox = None\<rparr>
     \<noteq> \<lparr>apiKey = ''ABCDEFGH2222'', apiSecret = ''s2'', passphrase = Some ''p2'',
         sandbox = None\<rparr>
   \<and> createBroker ''OKX''
       \<lparr>apiKey = ''ABCDEFGH2222'', apiSecret = ''s2'', passphrase = Some ''p2'', sandbox = None\<rparr>
       None
       \<lparr>instances = [(''OKX_ABCDEFGH'', 0)],
        objects = (\<lambda>r. None)(0 \<mapsto> \<lparr>kind = OKX, state = new_broker
          \<lparr>apiKey = ''ABCDEFGH1111'', apiSecret = ''s1'', passphrase = None,
           sandbox = None\<rparr>\<rparr>),
        next_ref = 1\<rparr>
     = Inr (0, \<lparr>instances = [(''OKX_ABCDEFGH'', 0)],
                objects = (\<lambda>r. None)(0 \<mapsto> \<lparr>kind = OKX, state = new_broker
                  \<lparr>apiKey = ''ABCDEFGH1111'', apiSecret = ''s1'', passphrase = None,
                   sandbox = None\<rparr>\<rparr>),
                next_ref = 1\<rparr>)"
proof -
  let ?c1 = "\<lparr>apiKey = ''ABCDEFGH1111'', apiSecret = ''s1'', passphrase = None,
              sandbox = None\<rparr>"
  let ?c2 = "\<lparr>apiKey = ''ABCDEFGH2222'', apiSecret = ''s2'', passphrase = Some ''p2'',
              sandbox = None\<rparr>"
  let ?f1 = "\<lparr>instances = [(''OKX_ABCDEFGH'', 0)],
        objects = (\<lambda>r. None)(0 \<mapsto> \<lparr>kind = OKX, state = new_broker ?c1\<rparr>),
        next_ref = 1\<rparr>"
  have h1: "map_of (instances empty_factory) (''OKX'' @ ''_'' @ take 8 (apiKey ?c1)) = None"
    by (simp add: empty_factory_def)
  have h2: "take 8 (apiKey ?c1) = take 8 (apiKey ?c2)" by simp
  have h3: "createBroker ''OKX'' ?c1 None empty_factory = Inr (0, ?f1)"
    by (simp add: createBroker_def instance_key_def broker_class_def empty_factory_def)
  have ne: "?c1 \<noteq> ?c2" by simp
  from createBroker_prefix_collision [OF h1 h2 h3]
  have "createBroker ''OKX'' ?c2 None ?f1 = Inr (0, ?f1)" by blast
  with ne show ?thesis by (rule conjI)
qed

end
